theory Spec2Isabelle
  imports Main "HOL-Library.Word"
begin

section \<open>Data model of driver/config/config.go\<close>

text \<open>
  The typed accessor layer \<^verbatim>\<open>Config\<close> wraps a configuration source \<^verbatim>\<open>p.p\<close>
  (a \<^verbatim>\<open>configx.Provider\<close> over koanf) and a logger. The structs of the package are
  records, Go's \<^verbatim>\<open>int\<close> read from the document is \<^typ>\<open>int\<close>, \<^verbatim>\<open>uint8\<close> and
  \<^verbatim>\<open>uint32\<close> are words, strings are byte lists.
\<close>

text \<open>The fields of net/url's \<^verbatim>\<open>URL\<close> struct.\<close>

record url =
  Scheme :: string
  Opaque :: string
  User :: "(string \<times> string option) option"
  Host :: string
  Path :: string
  RawPath :: string
  ForceQuery :: bool
  RawQuery :: string
  Fragment :: string
  RawFragment :: string

record Schema =
  ID :: string
  URL :: string

record SelfServiceHook =
  Name :: string
  HookConfig :: string

record SelfServiceStrategy =
  Enabled :: bool
  Config :: string

record Argon2 =
  Memory :: nat
  Iterations :: "32 word"
  Parallelism :: "8 word"
  SaltLength :: "32 word"
  KeyLength :: "32 word"
  ExpectedDuration :: int
  ExpectedDeviation :: int
  DedicatedMemory :: nat

text \<open>net/http's \<^verbatim>\<open>SameSite\<close> modes.\<close>

datatype SameSite = SameSiteDefaultMode | SameSiteLaxMode | SameSiteStrictMode | SameSiteNoneMode

text \<open>
  A value held by the source: what \<^verbatim>\<open>p.p.Get(key)\<close> can return as an
  \<^verbatim>\<open>interface{}\<close>. \<open>VNil\<close> is Go's nil (a JSON null), \<open>VURL\<close> and \<open>VURLPtr\<close> are a
  \<^verbatim>\<open>url.URL\<close> and a \<^verbatim>\<open>*url.URL\<close> stored by \<^verbatim>\<open>Set\<close>, \<open>VMap\<close> is a nested object.
\<close>

datatype val =
    VNil
  | VBool bool
  | VInt int
  | VStr string
  | VURL url
  | VURLPtr url
  | VList "val list"
  | VMap "(string \<times> val) list"

text \<open>A fatal log entry (\<^verbatim>\<open>p.l.Fatalf\<close>, \<^verbatim>\<open>p.l.Fatal\<close>) ends the process: the
  accessor returns nothing. The string is the message.\<close>

datatype fatal = Fatal string

subsection \<open>The runtime and the libraries the accessors call\<close>

text \<open>
  The Go runtime, the operating system and the libraries outside the package are
  parameters of the embedding: each field stands for one call of the source.
  \<^item> \<open>Hostname\<close>: \<^verbatim>\<open>os.Hostname()\<close>, \<open>None\<close> when it returns an error;
  \<^item> \<open>NumCPU\<close>: \<^verbatim>\<open>runtime.NumCPU()\<close>;
  \<^item> \<open>NewUUID n\<close>: the string of the \<open>n\<close>-th \<^verbatim>\<open>uuid.New()\<close> of the process;
  \<^item> \<open>ParseRequestURI\<close>: \<^verbatim>\<open>url.ParseRequestURI\<close>, \<open>None\<close> on error;
  \<^item> \<open>URLString\<close>: \<^verbatim>\<open>(*url.URL).String()\<close>;
  \<^item> \<open>Sprint\<close>: \<^verbatim>\<open>fmt.Sprintf("%v", v)\<close>;
  \<^item> \<open>ToInt\<close>, \<open>ToBool\<close>, \<open>ToByteSize\<close>, \<open>ToDuration\<close>: the source's coercion of a
    present value of another type (strings such as \<^verbatim>\<open>"128MB"\<close> or \<^verbatim>\<open>"500ms"\<close>);
    \<open>ToByteSize\<close> is \<open>None\<close> when the value does not parse;
  \<^item> \<open>Marshal\<close>: \<^verbatim>\<open>p.p.Marshal(kjson.Parser())\<close>, the document as JSON bytes,
    \<open>None\<close> on error;
  \<^item> \<open>GJsonRaw out key\<close>: \<^verbatim>\<open>gjson.GetBytes(out, key).Raw\<close>;
  \<^item> \<open>DecodeSchemas\<close>: \<^verbatim>\<open>json.NewDecoder(...).Decode(&ss)\<close> into \<^verbatim>\<open>Schemas\<close>;
  \<^item> \<open>DecodeHooks\<close>: \<^verbatim>\<open>jsonx.NewStrictDecoder(...).Decode(&hooks)\<close>;
  \<^item> \<open>Accepts\<close>: the validation of a document against the schema the source was
    built with, when it is loaded and after every \<^verbatim>\<open>Set\<close> (which returns an
    error when the document it produced is not valid).
\<close>

record env =
  Hostname :: "string option"
  NumCPU :: int
  NewUUID :: "nat \<Rightarrow> string"
  ParseRequestURI :: "string \<Rightarrow> url option"
  URLString :: "url \<Rightarrow> string"
  Sprint :: "val \<Rightarrow> string"
  ToInt :: "val \<Rightarrow> int"
  ToBool :: "val \<Rightarrow> bool"
  ToByteSize :: "val \<Rightarrow> nat option"
  ToDuration :: "val \<Rightarrow> int"
  Marshal :: "val \<Rightarrow> string option"
  GJsonRaw :: "string \<Rightarrow> string \<Rightarrow> string"
  DecodeSchemas :: "string \<Rightarrow> Schema list option"
  DecodeHooks :: "string \<Rightarrow> SelfServiceHook list option"
  Accepts :: "val \<Rightarrow> bool"

subsection \<open>The configuration source\<close>

text \<open>
  The state of the source: the nested document, the log of the writes it has
  applied (what a mock source counting writes records) and the number of UUIDs
  the process has drawn.
\<close>

record source =
  document :: val
  writes :: "(string \<times> val) list"
  drawn :: nat

text \<open>A dotted key is split at every \<^verbatim>\<open>.\<close> (\<^verbatim>\<open>strings.Split(key, ".")\<close>).\<close>

fun split_dot :: "string \<Rightarrow> string list" where
  "split_dot [] = [[]]"
| "split_dot (c # cs) =
     (if c = CHR ''.'' then [] # split_dot cs
      else (case split_dot cs of [] \<Rightarrow> [[c]] | p # ps \<Rightarrow> (c # p) # ps))"

text \<open>Descending the document along a path; only objects have children.\<close>

fun search :: "val \<Rightarrow> string list \<Rightarrow> val option" where
  "search v [] = Some v"
| "search v (k # ks) =
     (case v of
        VMap kvs \<Rightarrow> (case map_of kvs k of None \<Rightarrow> None | Some c \<Rightarrow> search c ks)
      | _ \<Rightarrow> None)"

text \<open>Replacing the binding of a key in an object, or adding it at the end.\<close>

fun put :: "string \<Rightarrow> val \<Rightarrow> (string \<times> val) list \<Rightarrow> (string \<times> val) list" where
  "put k v [] = [(k, v)]"
| "put k v ((k', v') # kvs) = (if k = k' then (k, v) # kvs else (k', v') # put k v kvs)"

text \<open>Writing a value at a path: the objects on the way are created, and a value
  that is not an object is replaced by one.\<close>

fun set_path :: "val \<Rightarrow> string list \<Rightarrow> val \<Rightarrow> val" where
  "set_path d [] v = v"
| "set_path d (k # ks) v =
     (case d of
        VMap kvs \<Rightarrow>
          VMap (put k (set_path (case map_of kvs k of None \<Rightarrow> VMap [] | Some c \<Rightarrow> c) ks v) kvs)
      | _ \<Rightarrow> VMap [(k, set_path (VMap []) ks v)])"

text \<open>
  The accessors of the source. The source is not part of the package: \<^verbatim>\<open>p.p\<close> is
  a \<^verbatim>\<open>configx.Provider\<close> of \<^verbatim>\<open>github.com/ory/x\<close>, which embeds koanf's
  \<^verbatim>\<open>Koanf\<close>, and config.go holds only the calls. They behave as follows.
  \<^item> \<open>p_Exists\<close> (\<^verbatim>\<open>Exists\<close>): the key addresses a node of the document; a JSON null
    is a node, a key below a value that is not an object is none;
  \<^item> \<open>p_Get\<close> (\<^verbatim>\<open>Get\<close>): the value at the key, nil when the key is absent;
  \<^item> \<open>p_String\<close>, \<open>p_Bool\<close>, \<open>p_Int\<close> (\<^verbatim>\<open>String\<close>, \<^verbatim>\<open>Bool\<close>, \<^verbatim>\<open>Int\<close>): the value when
    it has the type asked for, the zero value (\<^verbatim>\<open>""\<close>, \<^verbatim>\<open>false\<close>, \<^verbatim>\<open>0\<close>) for nil, and
    the library's coercion of the value otherwise;
  \<^item> \<open>p_Strings\<close> (\<^verbatim>\<open>Strings\<close>): the elements of a list, a string as it is and any
    other element formatted, the empty list for a value that is no list;
  \<^item> \<open>p_StringF\<close>, \<open>p_BoolF\<close>, \<open>p_IntF\<close>, \<open>p_ByteSizeF\<close>, \<open>p_DurationF\<close>: the fallback when
    the key does not exist, the typed read otherwise (a byte size that does not
    parse gives the fallback too).
\<close>

definition p_Exists :: "source \<Rightarrow> string \<Rightarrow> bool" where
  "p_Exists s key = (search (document s) (split_dot key) \<noteq> None)"

definition p_Get :: "source \<Rightarrow> string \<Rightarrow> val" where
  "p_Get s key = (case search (document s) (split_dot key) of None \<Rightarrow> VNil | Some v \<Rightarrow> v)"

definition p_String :: "env \<Rightarrow> source \<Rightarrow> string \<Rightarrow> string" where
  "p_String e s key = (case p_Get s key of VNil \<Rightarrow> [] | VStr t \<Rightarrow> t | v \<Rightarrow> Sprint e v)"

definition p_StringF :: "env \<Rightarrow> source \<Rightarrow> string \<Rightarrow> string \<Rightarrow> string" where
  "p_StringF e s key fallback = (if \<not> p_Exists s key then fallback else p_String e s key)"

fun strings_of :: "env \<Rightarrow> val list \<Rightarrow> string list" where
  "strings_of e [] = []"
| "strings_of e (VStr t # vs) = t # strings_of e vs"
| "strings_of e (v # vs) = Sprint e v # strings_of e vs"

definition p_Strings :: "env \<Rightarrow> source \<Rightarrow> string \<Rightarrow> string list" where
  "p_Strings e s key = (case p_Get s key of VList vs \<Rightarrow> strings_of e vs | _ \<Rightarrow> [])"

definition p_Bool :: "env \<Rightarrow> source \<Rightarrow> string \<Rightarrow> bool" where
  "p_Bool e s key = (case p_Get s key of VNil \<Rightarrow> False | VBool b \<Rightarrow> b | v \<Rightarrow> ToBool e v)"

definition p_BoolF :: "env \<Rightarrow> source \<Rightarrow> string \<Rightarrow> bool \<Rightarrow> bool" where
  "p_BoolF e s key fallback = (if \<not> p_Exists s key then fallback else p_Bool e s key)"

definition p_Int :: "env \<Rightarrow> source \<Rightarrow> string \<Rightarrow> int" where
  "p_Int e s key = (case p_Get s key of VNil \<Rightarrow> 0 | VInt n \<Rightarrow> n | v \<Rightarrow> ToInt e v)"

definition p_IntF :: "env \<Rightarrow> source \<Rightarrow> string \<Rightarrow> int \<Rightarrow> int" where
  "p_IntF e s key fallback = (if \<not> p_Exists s key then fallback else p_Int e s key)"

definition p_ByteSizeF :: "env \<Rightarrow> source \<Rightarrow> string \<Rightarrow> nat \<Rightarrow> nat" where
  "p_ByteSizeF e s key fallback =
     (if \<not> p_Exists s key then fallback
      else (case ToByteSize e (p_Get s key) of None \<Rightarrow> fallback | Some b \<Rightarrow> b))"

definition p_DurationF :: "env \<Rightarrow> source \<Rightarrow> string \<Rightarrow> int \<Rightarrow> int" where
  "p_DurationF e s key fallback =
     (if \<not> p_Exists s key then fallback else ToDuration e (p_Get s key))"




subsection \<open>Building the source\<close>

text \<open>
  \<^verbatim>\<open>New\<close> (lines 189 to 215) opens and reads \<^verbatim>\<open>.schema/config.schema.json\<close>,
  returning an error when either fails, and hands the schema, with the options
  naming the configured document, to \<^verbatim>\<open>configx.New\<close>: the source starts from the
  defaults the schema declares, merges the configured document over them and
  validates the result against the schema; the error of a failed validation is
  returned. The schema file is not among the sources of the package, so it is a
  parameter: \<open>Unopenable\<close>, \<open>Unreadable\<close>, or \<open>SchemaFile defaults\<close> with the defaults
  it declares (dotted keys and their values); its validation is \<open>Accepts\<close>.

  Merging (koanf's \<^verbatim>\<open>maps.Merge\<close>): an object of the document is merged key by
  key into an object of the defaults, every other value of the document replaces
  what the defaults hold at its place.
\<close>

datatype schema_file = Unopenable | Unreadable | SchemaFile "(string \<times> val) list"

fun overlay :: "val \<Rightarrow> val \<Rightarrow> val"
  and overlay_list ::
    "(string \<times> val) list \<Rightarrow> (string \<times> val) list \<Rightarrow> (string \<times> val) list" where
  "overlay base (VMap kvs) =
     (case base of VMap bs \<Rightarrow> VMap (overlay_list bs kvs) | _ \<Rightarrow> VMap kvs)"
| "overlay base v = v"
| "overlay_list bs [] = bs"
| "overlay_list bs ((k, v) # kvs) =
     overlay_list (put k (case map_of bs k of None \<Rightarrow> v | Some b \<Rightarrow> overlay b v) bs) kvs"

definition New :: "env \<Rightarrow> schema_file \<Rightarrow> val \<Rightarrow> string + source" where
  "New e schema d =
     (case schema of
        Unopenable \<Rightarrow> Inl ''unable to open config.schema.json''
      | Unreadable \<Rightarrow> Inl ''unable to read config.schema.json''
      | SchemaFile defaults \<Rightarrow>
          (let base = fold (\<lambda>(k, v) b. set_path b (split_dot k) v) defaults (VMap []);
               doc = overlay base d
           in if Accepts e doc then Inr \<lparr>document = doc, writes = [], drawn = 0\<rparr>
              else Inl ''the configuration is invalid''))"

subsection \<open>Constants of the package\<close>

definition DefaultIdentityTraitsSchemaID :: string where
  "DefaultIdentityTraitsSchemaID = ''default''"
definition DefaultSQLiteMemoryDSN :: string where
  "DefaultSQLiteMemoryDSN = ''sqlite://:memory:?_fk=true''"
definition ViperKeyDSN :: string where
  "ViperKeyDSN = ''dsn''"
definition ViperKeySecretsDefault :: string where
  "ViperKeySecretsDefault = ''secrets.default''"
definition ViperKeyPublicBaseURL :: string where
  "ViperKeyPublicBaseURL = ''serve.public.base_url''"
definition ViperKeyPublicPort :: string where
  "ViperKeyPublicPort = ''serve.public.port''"
definition ViperKeyPublicHost :: string where
  "ViperKeyPublicHost = ''serve.public.host''"
definition ViperKeyAdminBaseURL :: string where
  "ViperKeyAdminBaseURL = ''serve.admin.base_url''"
definition ViperKeyAdminPort :: string where
  "ViperKeyAdminPort = ''serve.admin.port''"
definition ViperKeyAdminHost :: string where
  "ViperKeyAdminHost = ''serve.admin.host''"
definition ViperKeySessionSameSite :: string where
  "ViperKeySessionSameSite = ''session.cookie.same_site''"
definition ViperKeySelfServiceStrategyConfig :: string where
  "ViperKeySelfServiceStrategyConfig = ''selfservice.methods''"
definition ViperKeySelfServiceRegistrationAfter :: string where
  "ViperKeySelfServiceRegistrationAfter = ''selfservice.flows.registration.after''"
definition ViperKeySelfServiceRegistrationBeforeHooks :: string where
  "ViperKeySelfServiceRegistrationBeforeHooks = ''selfservice.flows.registration.before.hooks''"
definition ViperKeySelfServiceLoginAfter :: string where
  "ViperKeySelfServiceLoginAfter = ''selfservice.flows.login.after''"
definition ViperKeySelfServiceLoginBeforeHooks :: string where
  "ViperKeySelfServiceLoginBeforeHooks = ''selfservice.flows.login.before.hooks''"
definition ViperKeySelfServiceSettingsAfter :: string where
  "ViperKeySelfServiceSettingsAfter = ''selfservice.flows.settings.after''"
definition ViperKeyDefaultIdentitySchemaURL :: string where
  "ViperKeyDefaultIdentitySchemaURL = ''identity.default_schema_url''"
definition ViperKeyIdentitySchemas :: string where
  "ViperKeyIdentitySchemas = ''identity.schemas''"
definition ViperKeyHasherArgon2ConfigMemory :: string where
  "ViperKeyHasherArgon2ConfigMemory = ''hashers.argon2.memory''"
definition ViperKeyHasherArgon2ConfigIterations :: string where
  "ViperKeyHasherArgon2ConfigIterations = ''hashers.argon2.iterations''"
definition ViperKeyHasherArgon2ConfigParallelism :: string where
  "ViperKeyHasherArgon2ConfigParallelism = ''hashers.argon2.parallelism''"
definition ViperKeyHasherArgon2ConfigSaltLength :: string where
  "ViperKeyHasherArgon2ConfigSaltLength = ''hashers.argon2.salt_length''"
definition ViperKeyHasherArgon2ConfigKeyLength :: string where
  "ViperKeyHasherArgon2ConfigKeyLength = ''hashers.argon2.key_length''"
definition ViperKeyHasherArgon2ConfigExpectedDuration :: string where
  "ViperKeyHasherArgon2ConfigExpectedDuration = ''hashers.argon2.expected_duration''"
definition ViperKeyHasherArgon2ConfigExpectedDeviation :: string where
  "ViperKeyHasherArgon2ConfigExpectedDeviation = ''hashers.argon2.expected_deviation''"
definition ViperKeyHasherArgon2ConfigDedicatedMemory :: string where
  "ViperKeyHasherArgon2ConfigDedicatedMemory = ''hashers.argon2.dedicated_memory''"

text \<open>\<^verbatim>\<open>bytesize.MB\<close> and \<^verbatim>\<open>bytesize.GB\<close> are \<open>1 << 20\<close> and \<open>1 << 30\<close> bytes;
  a \<^verbatim>\<open>time.Duration\<close> counts nanoseconds.\<close>

definition MB :: nat where
  "MB = 2 ^ 20"
definition GB :: nat where
  "GB = 2 ^ 30"
definition Millisecond :: int where
  "Millisecond = 1000000"

definition Argon2DefaultMemory :: nat where
  "Argon2DefaultMemory = 128 * MB"
definition Argon2DefaultIterations :: "32 word" where
  "Argon2DefaultIterations = 1"
definition Argon2DefaultSaltLength :: "32 word" where
  "Argon2DefaultSaltLength = 16"
definition Argon2DefaultKeyLength :: "32 word" where
  "Argon2DefaultKeyLength = 32"
definition Argon2DefaultDuration :: int where
  "Argon2DefaultDuration = 500 * Millisecond"
definition Argon2DefaultDeviation :: int where
  "Argon2DefaultDeviation = 500 * Millisecond"
definition Argon2DefaultDedicatedMemory :: nat where
  "Argon2DefaultDedicatedMemory = 1 * GB"

text \<open>\<^verbatim>\<open>var Argon2DefaultParallelism = uint8(runtime.NumCPU() * 2)\<close> (line 167):
  the conversion to \<^verbatim>\<open>uint8\<close> keeps the low eight bits.\<close>

definition Argon2DefaultParallelism :: "env \<Rightarrow> 8 word" where
  "Argon2DefaultParallelism e = word_of_int (NumCPU e * 2)"

subsection \<open>Formatting\<close>

text \<open>The verb \<^verbatim>\<open>%d\<close> of \<^verbatim>\<open>fmt.Sprintf\<close>: an integer in decimal.\<close>

fun digit_chars :: "nat \<Rightarrow> string" where
  "digit_chars n =
     (if n < 10 then [''0123456789'' ! n]
      else digit_chars (n div 10) @ [''0123456789'' ! (n mod 10)])"

declare digit_chars.simps [simp del]

definition itoa :: "int \<Rightarrow> string" where
  "itoa i = (if i < 0 then CHR ''-'' # digit_chars (nat (- i)) else digit_chars (nat i))"


section \<open>The accessors\<close>

text \<open>\<^verbatim>\<open>HookStrategyKey\<close> (line 169): \<^verbatim>\<open>fmt.Sprintf("%s.%s.hooks", key, strategy)\<close>.\<close>

definition HookStrategyKey :: "string \<Rightarrow> string \<Rightarrow> string" where
  "HookStrategyKey key strategy = key @ ''.'' @ strategy @ ''.hooks''"



text \<open>\<^verbatim>\<open>HasherArgon2\<close> (lines 259 to 272): \<^verbatim>\<open>int(d)\<close> of an unsigned default is
  \<^term>\<open>uint d\<close>, \<^verbatim>\<open>uint32(n)\<close> and \<^verbatim>\<open>uint8(n)\<close> keep the low bits.\<close>

definition HasherArgon2 :: "env \<Rightarrow> source \<Rightarrow> Argon2" where
  "HasherArgon2 e s =
     \<lparr>Memory = p_ByteSizeF e s ViperKeyHasherArgon2ConfigMemory Argon2DefaultMemory,
      Iterations = word_of_int
        (p_IntF e s ViperKeyHasherArgon2ConfigIterations (uint Argon2DefaultIterations)),
      Parallelism = word_of_int
        (p_IntF e s ViperKeyHasherArgon2ConfigParallelism (uint (Argon2DefaultParallelism e))),
      SaltLength = word_of_int
        (p_IntF e s ViperKeyHasherArgon2ConfigSaltLength (uint Argon2DefaultSaltLength)),
      KeyLength = word_of_int
        (p_IntF e s ViperKeyHasherArgon2ConfigKeyLength (uint Argon2DefaultKeyLength)),
      ExpectedDuration =
        p_DurationF e s ViperKeyHasherArgon2ConfigExpectedDuration Argon2DefaultDuration,
      ExpectedDeviation =
        p_DurationF e s ViperKeyHasherArgon2ConfigExpectedDeviation Argon2DefaultDeviation,
      DedicatedMemory =
        p_ByteSizeF e s ViperKeyHasherArgon2ConfigDedicatedMemory Argon2DefaultDedicatedMemory\<rparr>"

text \<open>\<^verbatim>\<open>listenOn\<close> (lines 274 to 286) and its two callers.\<close>

definition listenOn :: "env \<Rightarrow> source \<Rightarrow> string \<Rightarrow> fatal + string" where
  "listenOn e s key =
     (let fb = (if key = ''admin'' then 4434 else 4433);
          port = p_IntF e s (''serve.'' @ key @ ''.port'') fb
      in if port < 1 then Inl (Fatal ''serve.%s.port can not be zero or negative'')
         else Inr (p_String e s (''serve.'' @ key @ ''.host'') @ '':'' @ itoa port))"

definition AdminListenOn :: "env \<Rightarrow> source \<Rightarrow> fatal + string" where
  "AdminListenOn e s = listenOn e s ''admin''"

definition PublicListenOn :: "env \<Rightarrow> source \<Rightarrow> fatal + string" where
  "PublicListenOn e s = listenOn e s ''public''"

text \<open>\<^verbatim>\<open>parseURIOrFail\<close> (lines 604 to 611) and
  \<^verbatim>\<open>DefaultIdentityTraitsSchemaURL\<close> (line 288).\<close>

definition parseURIOrFail :: "env \<Rightarrow> source \<Rightarrow> string \<Rightarrow> fatal + url" where
  "parseURIOrFail e s key =
     (case ParseRequestURI e (p_String e s key) of
        None \<Rightarrow> Inl (Fatal ''Configuration value from key %s is not a valid URL: %s'')
      | Some u \<Rightarrow> Inr u)"

definition DefaultIdentityTraitsSchemaURL :: "env \<Rightarrow> source \<Rightarrow> fatal + url" where
  "DefaultIdentityTraitsSchemaURL e s = parseURIOrFail e s ViperKeyDefaultIdentitySchemaURL"

text \<open>\<^verbatim>\<open>IdentityTraitsSchemas\<close> (lines 292 to 320).\<close>

definition IdentityTraitsSchemas :: "env \<Rightarrow> source \<Rightarrow> fatal + Schema list" where
  "IdentityTraitsSchemas e s =
     (case DefaultIdentityTraitsSchemaURL e s of
        Inl f \<Rightarrow> Inl f
      | Inr u \<Rightarrow>
          (let ds = \<lparr>ID = DefaultIdentityTraitsSchemaID, URL = URLString e u\<rparr>
           in if \<not> p_Exists s ViperKeyIdentitySchemas then Inr [ds]
              else (case Marshal e (document s) of
                      None \<Rightarrow> Inl (Fatal ''Unable to dencode values from %s.'')
                    | Some out \<Rightarrow>
                        (let config = GJsonRaw e out ViperKeyIdentitySchemas
                         in if length config = 0 then Inr [ds]
                            else (case DecodeSchemas e config of
                                    None \<Rightarrow> Inl (Fatal ''Unable to encode values from %s.'')
                                  | Some ss \<Rightarrow> Inr (ss @ [ds]))))))"

text \<open>\<^verbatim>\<open>FindSchemaByID\<close> (lines 173 to 181).\<close>

fun FindSchemaByID :: "Schema list \<Rightarrow> string \<Rightarrow> string + Schema" where
  "FindSchemaByID [] i = Inl ''could not find schema with id %s''"
| "FindSchemaByID (sc # scs) i = (if ID sc = i then Inr sc else FindSchemaByID scs i)"

text \<open>\<^verbatim>\<open>DSN\<close> (config.go, lines 330 to 343).\<close>

definition DSN :: "env \<Rightarrow> source \<Rightarrow> fatal + string" where
  "DSN e s =
     (let dsn = p_String e s ViperKeyDSN
      in if dsn = ''memory'' then Inr DefaultSQLiteMemoryDSN
         else if length dsn > 0 then Inr dsn
         else Inl (Fatal ''dsn must be set''))"

text \<open>\<^verbatim>\<open>SessionSameSiteMode\<close> (lines 645 to 655): a switch on the configured
  string, read with the fallback \<^verbatim>\<open>"Lax"\<close>.\<close>

definition SessionSameSiteMode :: "env \<Rightarrow> source \<Rightarrow> SameSite" where
  "SessionSameSiteMode e s =
     (let v = p_StringF e s ViperKeySessionSameSite ''Lax''
      in if v = ''Lax'' then SameSiteLaxMode
         else if v = ''Strict'' then SameSiteStrictMode
         else if v = ''None'' then SameSiteNoneMode
         else SameSiteDefaultMode)"

text \<open>\<^verbatim>\<open>selfServiceHooks\<close> (lines 369 to 396) and the accessors built on it.\<close>

definition selfServiceHooks :: "env \<Rightarrow> source \<Rightarrow> string \<Rightarrow> fatal + SelfServiceHook list" where
  "selfServiceHooks e s key =
     (if \<not> p_Exists s key then Inr []
      else (case Marshal e (document s) of
              None \<Rightarrow> Inl (Fatal ''Unable to decode values from configuration key: %s'')
            | Some out \<Rightarrow>
                (let config = GJsonRaw e out key
                 in if length config = 0 then Inr []
                    else (case DecodeHooks e config of
                            None \<Rightarrow>
                              Inl (Fatal ''Unable to encode value %s from configuration key: %s'')
                          | Some hooks \<Rightarrow>
                              Inr (map (\<lambda>h. if length (HookConfig h) = 0
                                             then h\<lparr>HookConfig := ''{}''\<rparr> else h) hooks)))))"

definition SelfServiceFlowLoginBeforeHooks :: "env \<Rightarrow> source \<Rightarrow> fatal + SelfServiceHook list" where
  "SelfServiceFlowLoginBeforeHooks e s = selfServiceHooks e s ViperKeySelfServiceLoginBeforeHooks"

definition SelfServiceFlowRegistrationBeforeHooks ::
    "env \<Rightarrow> source \<Rightarrow> fatal + SelfServiceHook list" where
  "SelfServiceFlowRegistrationBeforeHooks e s =
     selfServiceHooks e s ViperKeySelfServiceRegistrationBeforeHooks"

definition SelfServiceFlowLoginAfterHooks ::
    "env \<Rightarrow> source \<Rightarrow> string \<Rightarrow> fatal + SelfServiceHook list" where
  "SelfServiceFlowLoginAfterHooks e s strategy =
     selfServiceHooks e s (HookStrategyKey ViperKeySelfServiceLoginAfter strategy)"

definition SelfServiceFlowSettingsAfterHooks ::
    "env \<Rightarrow> source \<Rightarrow> string \<Rightarrow> fatal + SelfServiceHook list" where
  "SelfServiceFlowSettingsAfterHooks e s strategy =
     selfServiceHooks e s (HookStrategyKey ViperKeySelfServiceSettingsAfter strategy)"

definition SelfServiceFlowRegistrationAfterHooks ::
    "env \<Rightarrow> source \<Rightarrow> string \<Rightarrow> fatal + SelfServiceHook list" where
  "SelfServiceFlowRegistrationAfterHooks e s strategy =
     selfServiceHooks e s (HookStrategyKey ViperKeySelfServiceRegistrationAfter strategy)"

text \<open>\<^verbatim>\<open>SelfServiceStrategy\<close> (lines 410 to 444). A failing \<^verbatim>\<open>Marshal\<close> is only
  warned about and leaves the configuration at \<^verbatim>\<open>{}\<close>.\<close>

definition SelfServiceStrategy :: "env \<Rightarrow> source \<Rightarrow> string \<Rightarrow> SelfServiceStrategy" where
  "SelfServiceStrategy e s strategy =
     (let config =
            (case Marshal e (document s) of
               None \<Rightarrow> ''{}''
             | Some out \<Rightarrow>
                 (let c = GJsonRaw e out
                            (ViperKeySelfServiceStrategyConfig @ ''.'' @ strategy @ ''.config'')
                  in if length c > 0 then c else ''{}''));
          enabledKey = ViperKeySelfServiceStrategyConfig @ ''.'' @ strategy @ ''.enabled'';
          s0 = \<lparr>Enabled = p_Bool e s enabledKey, Config = config\<rparr>;
          s1 = (if \<not> p_Exists s enabledKey
                then (if strategy = ''password'' \<or> strategy = ''profile'' \<or> strategy = ''link''
                      then s0\<lparr>Enabled := True\<rparr> else s0)
                else s0)
      in if length (Config s1) = 0 then s1\<lparr>Config := ''{}''\<rparr> else s1)"


text \<open>\<^verbatim>\<open>IsInsecureDevMode\<close> (line 617).\<close>

definition IsInsecureDevMode :: "env \<Rightarrow> source \<Rightarrow> bool" where
  "IsInsecureDevMode e s = p_Bool e s ''dev''"

text \<open>\<^verbatim>\<open>guessBaseURL\<close> (lines 480 to 499). \<open>url_zero\<close> is the zero value of the
  struct, the literal sets three fields.\<close>

definition url_zero :: url where
  "url_zero = \<lparr>Scheme = [], Opaque = [], User = None, Host = [], Path = [], RawPath = [],
     ForceQuery = False, RawQuery = [], Fragment = [], RawFragment = []\<rparr>"

definition guessBaseURL :: "env \<Rightarrow> source \<Rightarrow> string \<Rightarrow> string \<Rightarrow> int \<Rightarrow> url" where
  "guessBaseURL e s keyHost keyPort defaultPort =
     (let port = p_IntF e s keyPort defaultPort;
          host = p_String e s keyHost;
          host' = (if host = ''0.0.0.0'' \<or> length host = 0
                   then (case Hostname e of None \<Rightarrow> ''127.0.0.1'' | Some h \<Rightarrow> h)
                   else host);
          guess = url_zero\<lparr>Host := host' @ '':'' @ itoa port, Scheme := ''https'', Path := ''/''\<rparr>
      in if IsInsecureDevMode e s then guess\<lparr>Scheme := ''http''\<rparr> else guess)"

text \<open>\<^verbatim>\<open>baseURL\<close> (lines 501 to 518): a type switch on the stored value.\<close>

definition baseURL :: "env \<Rightarrow> source \<Rightarrow> string \<Rightarrow> string \<Rightarrow> string \<Rightarrow> int \<Rightarrow> url" where
  "baseURL e s keyURL keyHost keyPort defaultPort =
     (case p_Get s keyURL of
        VURLPtr t \<Rightarrow> t
      | VURL t \<Rightarrow> t
      | VStr t \<Rightarrow>
          (case ParseRequestURI e t of
             None \<Rightarrow> guessBaseURL e s keyHost keyPort defaultPort
           | Some parsed \<Rightarrow> parsed)
      | _ \<Rightarrow> guessBaseURL e s keyHost keyPort defaultPort)"

definition SelfPublicURL :: "env \<Rightarrow> source \<Rightarrow> url" where
  "SelfPublicURL e s =
     baseURL e s ViperKeyPublicBaseURL ViperKeyPublicHost ViperKeyPublicPort 4433"

definition SelfAdminURL :: "env \<Rightarrow> source \<Rightarrow> url" where
  "SelfAdminURL e s =
     baseURL e s ViperKeyAdminBaseURL ViperKeyAdminHost ViperKeyAdminPort 4434"

section \<open>The standard library's URL type\<close>

text \<open>
  \<^verbatim>\<open>guessBaseURL\<close> builds a \<^verbatim>\<open>url.URL\<close> and \<^verbatim>\<open>baseURL\<close> parses strings with
  \<^verbatim>\<open>url.ParseRequestURI\<close>. Whether the one reads back what the other wrote is a
  question about Go's net/url, so this section follows that package (as of Go
  1.15, current when config.go was written): \<^verbatim>\<open>shouldEscape\<close>, \<^verbatim>\<open>escape\<close>,
  \<^verbatim>\<open>unescape\<close>, \<^verbatim>\<open>getScheme\<close>, \<^verbatim>\<open>split\<close>, \<^verbatim>\<open>parseAuthority\<close>, \<^verbatim>\<open>parseHost\<close>,
  \<^verbatim>\<open>setPath\<close>, \<^verbatim>\<open>parse\<close> with \<^verbatim>\<open>viaRequest\<close> set, and \<^verbatim>\<open>(*URL).String\<close>.
  Strings are byte lists, an error is \<open>None\<close>.
\<close>

datatype encoding =
  encodePath | encodePathSegment | encodeHost | encodeZone | encodeUserPassword |
  encodeQueryComponent | encodeFragment

definition byte :: "char \<Rightarrow> nat" where
  "byte c = of_char c"

definition is_alpha :: "char \<Rightarrow> bool" where
  "is_alpha c =
     (byte CHR ''a'' \<le> byte c \<and> byte c \<le> byte CHR ''z'' \<or>
      byte CHR ''A'' \<le> byte c \<and> byte c \<le> byte CHR ''Z'')"

definition is_digit :: "char \<Rightarrow> bool" where
  "is_digit c = (byte CHR ''0'' \<le> byte c \<and> byte c \<le> byte CHR ''9'')"

definition ishex :: "char \<Rightarrow> bool" where
  "ishex c =
     (is_digit c \<or> byte CHR ''a'' \<le> byte c \<and> byte c \<le> byte CHR ''f'' \<or>
      byte CHR ''A'' \<le> byte c \<and> byte c \<le> byte CHR ''F'')"

definition unhex :: "char \<Rightarrow> nat" where
  "unhex c =
     (if is_digit c then byte c - byte CHR ''0''
      else if byte CHR ''a'' \<le> byte c \<and> byte c \<le> byte CHR ''f'' then byte c - byte CHR ''a'' + 10
      else if byte CHR ''A'' \<le> byte c \<and> byte c \<le> byte CHR ''F'' then byte c - byte CHR ''A'' + 10
      else 0)"

definition shouldEscape :: "char \<Rightarrow> encoding \<Rightarrow> bool" where
  \<open>shouldEscape c mode =
     (if is_alpha c \<or> is_digit c then False
      else if (mode = encodeHost \<or> mode = encodeZone) \<and> c \<in> set ''!$&'()*+,;=:[]<>"'' then False
      else if c \<in> set ''-_.~'' then False
      else if c \<in> set ''$&+,/:;=?@'' \<and> mode = encodePath then c = CHR ''?''
      else if c \<in> set ''$&+,/:;=?@'' \<and> mode = encodePathSegment then c \<in> set ''/;,?''
      else if c \<in> set ''$&+,/:;=?@'' \<and> mode = encodeUserPassword then c \<in> set ''@/?:''
      else if c \<in> set ''$&+,/:;=?@'' \<and> mode = encodeQueryComponent then True
      else if c \<in> set ''$&+,/:;=?@'' \<and> mode = encodeFragment then False
      else if mode = encodeFragment \<and> c \<in> set ''!()*'' then False
      else True)\<close>

definition escape_byte :: "char \<Rightarrow> encoding \<Rightarrow> string" where
  "escape_byte c mode =
     (if shouldEscape c mode
      then (if c = CHR '' '' \<and> mode = encodeQueryComponent then ''+''
            else [CHR ''%'', ''0123456789ABCDEF'' ! (byte c div 16),
                  ''0123456789ABCDEF'' ! (byte c mod 16)])
      else [c])"

definition escape :: "string \<Rightarrow> encoding \<Rightarrow> string" where
  "escape s mode = concat (map (\<lambda>c. escape_byte c mode) s)"

fun unescape_ok :: "string \<Rightarrow> encoding \<Rightarrow> bool" where
  "unescape_ok [] mode = True"
| "unescape_ok (c # cs) mode =
     (if c = CHR ''%''
      then (case cs of
              a # b # rest \<Rightarrow>
                ishex a \<and> ishex b \<and>
                \<not> (mode = encodeHost \<and> unhex a < 8 \<and> [c, a, b] \<noteq> ''%25'') \<and>
                \<not> (mode = encodeZone \<and> [c, a, b] \<noteq> ''%25'' \<and>
                   char_of (unhex a * 16 + unhex b) \<noteq> CHR '' '' \<and>
                   shouldEscape (char_of (unhex a * 16 + unhex b)) encodeHost) \<and>
                unescape_ok rest mode
            | _ \<Rightarrow> False)
      else if (mode = encodeHost \<or> mode = encodeZone) \<and> byte c < 128 \<and>
              shouldEscape c encodeHost
      then False
      else unescape_ok cs mode)"

fun unescape_bytes :: "string \<Rightarrow> encoding \<Rightarrow> string" where
  "unescape_bytes [] mode = []"
| "unescape_bytes (c # cs) mode =
     (if c = CHR ''%''
      then (case cs of
              a # b # rest \<Rightarrow> char_of (unhex a * 16 + unhex b) # unescape_bytes rest mode
            | _ \<Rightarrow> [])
      else if c = CHR ''+'' \<and> mode = encodeQueryComponent
      then CHR '' '' # unescape_bytes cs mode
      else c # unescape_bytes cs mode)"

definition unescape :: "string \<Rightarrow> encoding \<Rightarrow> string option" where
  "unescape s mode = (if unescape_ok s mode then Some (unescape_bytes s mode) else None)"

definition has_prefix :: "string \<Rightarrow> string \<Rightarrow> bool" where
  "has_prefix s p = (take (length p) s = p)"

definition has_suffix :: "string \<Rightarrow> string \<Rightarrow> bool" where
  "has_suffix s p = (length p \<le> length s \<and> drop (length s - length p) s = p)"

fun Index :: "string \<Rightarrow> string \<Rightarrow> int" where
  "Index [] sub = (if sub = [] then 0 else - 1)"
| "Index (c # cs) sub =
     (if has_prefix (c # cs) sub then 0
      else (let i = Index cs sub in if i < 0 then - 1 else i + 1))"

definition LastIndexByte :: "string \<Rightarrow> char \<Rightarrow> int" where
  "LastIndexByte s c =
     (if c \<in> set s then int (length s) - 1 - int (length (takeWhile (\<lambda>x. x \<noteq> c) (rev s)))
      else - 1)"

definition url_split :: "string \<Rightarrow> char \<Rightarrow> bool \<Rightarrow> string \<times> string" where
  "url_split s sep cutc =
     (if sep \<notin> set s then (s, [])
      else if cutc then (takeWhile (\<lambda>x. x \<noteq> sep) s, tl (dropWhile (\<lambda>x. x \<noteq> sep) s))
      else (takeWhile (\<lambda>x. x \<noteq> sep) s, dropWhile (\<lambda>x. x \<noteq> sep) s))"

fun getScheme_from :: "string \<Rightarrow> string \<Rightarrow> string \<Rightarrow> (string \<times> string) option" where
  "getScheme_from rawURL seen [] = Some ([], rawURL)"
| "getScheme_from rawURL seen (c # cs) =
     (if is_alpha c then getScheme_from rawURL (seen @ [c]) cs
      else if is_digit c \<or> c = CHR ''+'' \<or> c = CHR ''-'' \<or> c = CHR ''.''
      then (if seen = [] then Some ([], rawURL) else getScheme_from rawURL (seen @ [c]) cs)
      else if c = CHR '':''
      then (if seen = [] then None else Some (seen, cs))
      else Some ([], rawURL))"

definition getScheme :: "string \<Rightarrow> (string \<times> string) option" where
  "getScheme rawURL = getScheme_from rawURL [] rawURL"

definition ToLower :: "string \<Rightarrow> string" where
  "ToLower s =
     map (\<lambda>c. if byte CHR ''A'' \<le> byte c \<and> byte c \<le> byte CHR ''Z'' then char_of (byte c + 32)
               else c) s"

definition stringContainsCTLByte :: "string \<Rightarrow> bool" where
  "stringContainsCTLByte s = list_ex (\<lambda>b. byte b < byte CHR '' '' \<or> byte b = 127) s"

definition validOptionalPort :: "string \<Rightarrow> bool" where
  "validOptionalPort port =
     (case port of
        [] \<Rightarrow> True
      | c # ds \<Rightarrow> c = CHR '':'' \<and> list_all is_digit ds)"

definition validUserinfo :: "string \<Rightarrow> bool" where
  \<open>validUserinfo s =
     list_all (\<lambda>r. is_alpha r \<or> is_digit r \<or> r \<in> set ''-._:~!$&'()*+,;=%@'') s\<close>

definition parseHost :: "string \<Rightarrow> string option" where
  "parseHost host =
     (if has_prefix host ''[''
      then (let i = LastIndexByte host CHR '']''
            in if i < 0 then None
               else if \<not> validOptionalPort (drop (nat (i + 1)) host) then None
               else (let zone = Index (take (nat i) host) ''%25''
                     in if zone \<ge> 0
                        then (case unescape (take (nat zone) host) encodeHost of
                                None \<Rightarrow> None
                              | Some host1 \<Rightarrow>
                                  (case unescape (drop (nat zone) (take (nat i) host)) encodeZone of
                                     None \<Rightarrow> None
                                   | Some host2 \<Rightarrow>
                                       (case unescape (drop (nat i) host) encodeHost of
                                          None \<Rightarrow> None
                                        | Some host3 \<Rightarrow> Some (host1 @ host2 @ host3))))
                        else unescape host encodeHost))
      else (let i = LastIndexByte host CHR '':''
            in if i \<noteq> - 1 \<and> \<not> validOptionalPort (drop (nat i) host) then None
               else unescape host encodeHost))"

definition parseAuthority :: "string \<Rightarrow> ((string \<times> string option) option \<times> string) option" where
  "parseAuthority authority =
     (let i = LastIndexByte authority CHR ''@''
      in case (if i < 0 then parseHost authority else parseHost (drop (nat (i + 1)) authority)) of
           None \<Rightarrow> None
         | Some host \<Rightarrow>
             if i < 0 then Some (None, host)
             else (let userinfo = take (nat i) authority
                   in if \<not> validUserinfo userinfo then None
                      else if CHR '':'' \<notin> set userinfo
                      then (case unescape userinfo encodeUserPassword of
                              None \<Rightarrow> None
                            | Some u \<Rightarrow> Some (Some (u, None), host))
                      else (case url_split userinfo CHR '':'' True of
                              (username, password) \<Rightarrow>
                                (case unescape username encodeUserPassword of
                                   None \<Rightarrow> None
                                 | Some u \<Rightarrow>
                                     (case unescape password encodeUserPassword of
                                        None \<Rightarrow> None
                                      | Some pw \<Rightarrow> Some (Some (u, Some pw), host))))))"

definition setPath :: "url \<Rightarrow> string \<Rightarrow> url option" where
  "setPath u p =
     (case unescape p encodePath of
        None \<Rightarrow> None
      | Some path \<Rightarrow>
          Some (u\<lparr>Path := path, RawPath := (if p = escape path encodePath then [] else p)\<rparr>))"

definition go_ParseRequestURI :: "string \<Rightarrow> url option" where
  "go_ParseRequestURI rawURL =
     (if stringContainsCTLByte rawURL then None
      else if rawURL = [] then None
      else if rawURL = ''*'' then Some (url_zero\<lparr>Path := ''*''\<rparr>)
      else (case getScheme rawURL of
              None \<Rightarrow> None
            | Some (scheme, rest0) \<Rightarrow>
                (let u1 = url_zero\<lparr>Scheme := ToLower scheme\<rparr>;
                     force = (has_suffix rest0 ''?'' \<and> count_list rest0 CHR ''?'' = 1);
                     rest = (if force then butlast rest0 else fst (url_split rest0 CHR ''?'' True));
                     u2 = (if force then u1\<lparr>ForceQuery := True\<rparr>
                           else u1\<lparr>RawQuery := snd (url_split rest0 CHR ''?'' True)\<rparr>)
                 in if \<not> has_prefix rest ''/''
                    then (if Scheme u2 \<noteq> [] then Some (u2\<lparr>Opaque := rest\<rparr>) else None)
                    else if Scheme u2 \<noteq> [] \<and> has_prefix rest ''//''
                    then (case url_split (drop 2 rest) CHR ''/'' False of
                            (authority, rest') \<Rightarrow>
                              (case parseAuthority authority of
                                 None \<Rightarrow> None
                               | Some (user, host) \<Rightarrow>
                                   setPath (u2\<lparr>User := user, Host := host\<rparr>) rest'))
                    else setPath u2 rest)))"

definition validEncoded :: "string \<Rightarrow> encoding \<Rightarrow> bool" where
  \<open>validEncoded s mode =
     list_all (\<lambda>c. c \<in> set ''!$&'()*+,;=:@[]%'' \<or> \<not> shouldEscape c mode) s\<close>

definition EscapedPath :: "url \<Rightarrow> string" where
  "EscapedPath u =
     (if RawPath u \<noteq> [] \<and> validEncoded (RawPath u) encodePath \<and>
         unescape (RawPath u) encodePath = Some (Path u)
      then RawPath u
      else if Path u = ''*'' then ''*''
      else escape (Path u) encodePath)"

definition EscapedFragment :: "url \<Rightarrow> string" where
  "EscapedFragment u =
     (if RawFragment u \<noteq> [] \<and> validEncoded (RawFragment u) encodeFragment \<and>
         unescape (RawFragment u) encodeFragment = Some (Fragment u)
      then RawFragment u
      else escape (Fragment u) encodeFragment)"

definition Userinfo_String :: "string \<times> string option \<Rightarrow> string" where
  "Userinfo_String ui =
     (case ui of
        (username, None) \<Rightarrow> escape username encodeUserPassword
      | (username, Some password) \<Rightarrow>
          escape username encodeUserPassword @ '':'' @ escape password encodeUserPassword)"

definition go_URL_String :: "url \<Rightarrow> string" where
  "go_URL_String u =
     (let b0 = (if Scheme u \<noteq> [] then Scheme u @ '':'' else []);
          b1 = (if Opaque u \<noteq> [] then b0 @ Opaque u
                else (let a0 = (if Scheme u \<noteq> [] \<or> Host u \<noteq> [] \<or> User u \<noteq> None
                                then (let h0 = (if Host u \<noteq> [] \<or> Path u \<noteq> [] \<or> User u \<noteq> None
                                                then b0 @ ''//'' else b0);
                                          h1 = (case User u of
                                                  None \<Rightarrow> h0
                                                | Some ui \<Rightarrow> h0 @ Userinfo_String ui @ ''@'')
                                      in if Host u \<noteq> [] then h1 @ escape (Host u) encodeHost else h1)
                                else b0);
                          path = EscapedPath u;
                          a1 = (if path \<noteq> [] \<and> hd path \<noteq> CHR ''/'' \<and> Host u \<noteq> [] then a0 @ ''/''
                                else a0);
                          a2 = (if a1 = [] \<and> CHR '':'' \<in> set path \<and>
                                   CHR ''/'' \<notin> set (takeWhile (\<lambda>x. x \<noteq> CHR '':'') path)
                                then a1 @ ''./'' else a1)
                      in a2 @ path));
          b2 = (if ForceQuery u \<or> RawQuery u \<noteq> [] then b1 @ ''?'' @ RawQuery u else b1)
      in if Fragment u \<noteq> [] then b2 @ ''#'' @ EscapedFragment u else b2)"

text \<open>
  The hosts that come back from \<^verbatim>\<open>String\<close> and \<^verbatim>\<open>ParseRequestURI\<close>. \<^verbatim>\<open>String\<close>
  escapes every byte of the host for which \<^verbatim>\<open>shouldEscape\<close> holds in a host, and
  the parser accepts an escape in a host only for a byte from \<^verbatim>\<open>0x80\<close> on and for
  the percent sign; in the zone of an address in brackets, which starts at the
  first percent sign, only for the percent sign and the space. A host that starts
  with \<^verbatim>\<open>[\<close> must end with \<^verbatim>\<open>]\<close>, for the port to follow the last bracket.
\<close>

definition host_byte_reparses :: "char \<Rightarrow> bool" where
  "host_byte_reparses c = (\<not> shouldEscape c encodeHost \<or> 128 \<le> byte c \<or> c = CHR ''%'')"

definition zone_byte_reparses :: "char \<Rightarrow> bool" where
  "zone_byte_reparses c = (\<not> shouldEscape c encodeHost \<or> c = CHR ''%'' \<or> c = CHR '' '')"

definition host_reparses :: "string \<Rightarrow> bool" where
  "host_reparses h =
     (if has_prefix h ''[''
      then last h = CHR '']'' \<and>
           list_all host_byte_reparses (takeWhile (\<lambda>c. c \<noteq> CHR ''%'') (butlast h)) \<and>
           list_all zone_byte_reparses (dropWhile (\<lambda>c. c \<noteq> CHR ''%'') (butlast h))
      else list_all host_byte_reparses h)"

section \<open>Concrete sources and environments\<close>

text \<open>The state of a source after loading, before any write: \<open>d\<close> is the document
  it holds, the defaults of the schema included (what \<open>New\<close> has merged).\<close>

definition source_of :: "val \<Rightarrow> source" where
  "source_of d = \<lparr>document = d, writes = [], drawn = 0\<rparr>"

text \<open>
  A host named \<^verbatim>\<open>kratos-1\<close> with four processing units. URLs are parsed and
  written as net/url does; the other library calls fail or return nothing, and
  the examples below override the ones they need.
\<close>

definition env0 :: env where
  "env0 =
     \<lparr>Hostname = Some ''kratos-1'',
      NumCPU = 4,
      NewUUID = (\<lambda>n. if n = 0 then ''6ba7b810-9dad-11d1-80b4-00c04fd430c8''
                      else ''6ba7b811-9dad-11d1-80b4-00c04fd430c8''),
      ParseRequestURI = go_ParseRequestURI,
      URLString = go_URL_String,
      Sprint = (\<lambda>_. []),
      ToInt = (\<lambda>_. 0),
      ToBool = (\<lambda>_. False),
      ToByteSize = (\<lambda>_. None),
      ToDuration = (\<lambda>_. 0),
      Marshal = (\<lambda>_. None),
      GJsonRaw = (\<lambda>_ _. []),
      DecodeSchemas = (\<lambda>_. None),
      DecodeHooks = (\<lambda>_. None),
      Accepts = (\<lambda>_. True)\<rparr>"

text \<open>The document \<^verbatim>\<open>{"session":{"cookie":{"same_site":v}}}\<close>.\<close>

definition same_site_doc :: "string \<Rightarrow> source" where
  "same_site_doc v =
     source_of (VMap [(''session'', VMap [(''cookie'', VMap [(''same_site'', VStr v)])])])"

text \<open>The document \<^verbatim>\<open>{"selfservice":null}\<close> of the comment at line 426.\<close>

definition selfservice_null :: source where
  "selfservice_null = source_of (VMap [(''selfservice'', VNil)])"

text \<open>The document \<^verbatim>\<open>{"serve":{"public":{"port":4455}},"dev":true}\<close>.\<close>

definition dev_doc :: val where
  "dev_doc =
     VMap [(''serve'', VMap [(''public'', VMap [(''port'', VInt 4455)])]), (''dev'', VBool True)]"

text \<open>
  The same document with the public host configured as the empty string; a schema
  file that declares, as the schema of the package does, the default \<^verbatim>\<open>0.0.0.0\<close>
  for \<^verbatim>\<open>serve.public.host\<close>; and the document that the source built by \<open>New\<close>
  from the example document holds with it.
\<close>

definition dev_doc_empty_host :: val where
  "dev_doc_empty_host =
     VMap [(''serve'', VMap [(''public'', VMap [(''host'', VStr []), (''port'', VInt 4455)])]),
           (''dev'', VBool True)]"

definition public_host_default :: schema_file where
  "public_host_default = SchemaFile [(''serve.public.host'', VStr ''0.0.0.0'')]"

definition dev_doc_loaded :: val where
  "dev_doc_loaded =
     VMap [(''serve'', VMap [(''public'', VMap [(''host'', VStr ''0.0.0.0''), (''port'', VInt 4455)])]),
           (''dev'', VBool True)]"

text \<open>The document \<^verbatim>\<open>{"hashers":{"argon2":{"iterations":3}}}\<close>.\<close>

definition argon2_doc :: val where
  "argon2_doc = VMap [(''hashers'', VMap [(''argon2'', VMap [(''iterations'', VInt 3)])])]"

text \<open>The URL \<^verbatim>\<open>https://kratos.example.com/\<close>, and a document with a public base URL.\<close>

definition example_url :: url where
  "example_url = url_zero\<lparr>Scheme := ''https'', Host := ''kratos.example.com'', Path := ''/''\<rparr>"

definition base_url_doc :: "val \<Rightarrow> val" where
  "base_url_doc v = VMap [(''serve'', VMap [(''public'', VMap [(''base_url'', v)])])]"

text \<open>
  The login hooks of the specification's example, with the JSON text the source
  marshals the document to, the raw text of the hooks and what the strict decoder
  makes of it: the hook has no \<^verbatim>\<open>config\<close>.
\<close>

definition hooks_doc :: val where
  "hooks_doc = VMap [(''selfservice'', VMap [(''flows'', VMap [(''login'', VMap [(''after'',
     VMap [(''password'', VMap [(''hooks'',
       VList [VMap [(''hook'', VStr ''revoke_active_sessions'')]])])])])])])]"

definition hooks_doc_json :: string where
  \<open>hooks_doc_json =
     ''{"selfservice":{"flows":{"login":{"after":{"password":{"hooks":[{"hook":"revoke_active_sessions"}]}}}}}}''\<close>

definition hooks_raw :: string where
  \<open>hooks_raw = ''[{"hook":"revoke_active_sessions"}]''\<close>

definition env_hooks :: env where
  "env_hooks = env0
     \<lparr>Marshal := (\<lambda>d. if d = hooks_doc then Some hooks_doc_json else None),
      GJsonRaw := (\<lambda>out key.
         if out = hooks_doc_json \<and> key = ''selfservice.flows.login.after.password.hooks''
         then hooks_raw else []),
      DecodeHooks := (\<lambda>raw.
         if raw = hooks_raw then Some [\<lparr>Name = ''revoke_active_sessions'', HookConfig = []\<rparr>]
         else None)\<rparr>"

text \<open>
  A document with one explicit identity schema whose id is \<open>i\<close>, a document with
  none, and the library calls on them.
\<close>

definition schemas_doc :: "string \<Rightarrow> val" where
  "schemas_doc i = VMap [(''identity'', VMap
     [(''default_schema_url'', VStr ''file:///etc/default.schema.json''),
      (''schemas'', VList [VMap [(''id'', VStr i),
                                 (''url'', VStr ''file:///etc/other.schema.json'')]])])]"

definition no_schemas_doc :: val where
  "no_schemas_doc = VMap [(''identity'', VMap
     [(''default_schema_url'', VStr ''file:///etc/default.schema.json'')])]"

definition schemas_raw :: "string \<Rightarrow> string" where
  \<open>schemas_raw i = ''[{"id":"'' @ i @ ''","url":"file:///etc/other.schema.json"}]''\<close>

definition schemas_doc_json :: "string \<Rightarrow> string" where
  \<open>schemas_doc_json i =
     ''{"identity":{"default_schema_url":"file:///etc/default.schema.json","schemas":'' @
     schemas_raw i @ ''}}''\<close>

definition env_schemas :: "string \<Rightarrow> env" where
  \<open>env_schemas i = env0
     \<lparr>Marshal := (\<lambda>d. if d = schemas_doc i then Some (schemas_doc_json i)
         else if d = no_schemas_doc
         then Some ''{"identity":{"default_schema_url":"file:///etc/default.schema.json"}}''
         else None),
      GJsonRaw := (\<lambda>out key.
         if out = schemas_doc_json i \<and> key = ''identity.schemas'' then schemas_raw i else []),
      DecodeSchemas := (\<lambda>raw.
         if raw = schemas_raw i
         then Some [\<lparr>ID = i, URL = ''file:///etc/other.schema.json''\<rparr>]
         else None)\<rparr>\<close>


text \<open>The documents \<^verbatim>\<open>{"serve":{"public":{"port":-1}}}\<close> and
  \<^verbatim>\<open>{"serve":{"public":{"host":"my host"}}}\<close>.\<close>

definition neg_port_doc :: val where
  "neg_port_doc = VMap [(''serve'', VMap [(''public'', VMap [(''port'', VInt (- 1))])])]"

definition space_host_doc :: val where
  "space_host_doc = VMap [(''serve'', VMap [(''public'', VMap [(''host'', VStr ''my host'')])])]"

text \<open>The document \<^verbatim>\<open>{"serve":{"public":{"host":h}}}\<close>, and a host name with a
  letter outside ASCII: \<^verbatim>\<open>m\<close>, the two bytes of a u with diaeresis in UTF-8,
  \<^verbatim>\<open>nchen\<close>.\<close>

definition host_doc :: "string \<Rightarrow> val" where
  "host_doc h = VMap [(''serve'', VMap [(''public'', VMap [(''host'', VStr h)])])]"

definition utf8_host :: string where
  "utf8_host = ''m'' @ [CHR 0xC3, CHR 0xBC] @ ''nchen''"

section \<open>Properties\<close>

subsection \<open>Reading the source\<close>

lemma p_Get_absent: "\<not> p_Exists s key \<Longrightarrow> p_Get s key = VNil"
  by (simp add: p_Exists_def p_Get_def)

lemma p_Get_present: "p_Get s key \<noteq> VNil \<Longrightarrow> p_Exists s key"
  by (cases "search (document s) (split_dot key)") (simp_all add: p_Exists_def p_Get_def)

lemma itoa_4455: "itoa 4455 = ''4455''"
  by (simp add: itoa_def digit_chars.simps)

lemmas keys =
  DefaultIdentityTraitsSchemaID_def DefaultSQLiteMemoryDSN_def ViperKeyDSN_def
  ViperKeySecretsDefault_def ViperKeyPublicBaseURL_def ViperKeyPublicPort_def
  ViperKeyPublicHost_def ViperKeyAdminBaseURL_def ViperKeyAdminPort_def
  ViperKeyAdminHost_def ViperKeySessionSameSite_def ViperKeySelfServiceStrategyConfig_def
  ViperKeySelfServiceRegistrationAfter_def ViperKeySelfServiceRegistrationBeforeHooks_def ViperKeySelfServiceLoginAfter_def
  ViperKeySelfServiceLoginBeforeHooks_def ViperKeySelfServiceSettingsAfter_def ViperKeyDefaultIdentitySchemaURL_def
  ViperKeyIdentitySchemas_def ViperKeyHasherArgon2ConfigMemory_def ViperKeyHasherArgon2ConfigIterations_def
  ViperKeyHasherArgon2ConfigParallelism_def ViperKeyHasherArgon2ConfigSaltLength_def ViperKeyHasherArgon2ConfigKeyLength_def
  ViperKeyHasherArgon2ConfigExpectedDuration_def ViperKeyHasherArgon2ConfigExpectedDeviation_def ViperKeyHasherArgon2ConfigDedicatedMemory_def

lemmas source_eval =
  p_String_def p_StringF_def p_Get_def p_Exists_def p_Bool_def p_Int_def p_IntF_def
  p_Strings_def source_of_def keys

subsection \<open>The database connection string\<close>

text \<open>\<^verbatim>\<open>DSN()\<close> in terms of the string the source reads at \<^verbatim>\<open>dsn\<close>.\<close>

lemma DSN_by_string:
  "DSN e s =
     (if p_String e s ViperKeyDSN = ''memory'' then Inr ''sqlite://:memory:?_fk=true''
      else if p_String e s ViperKeyDSN \<noteq> [] then Inr (p_String e s ViperKeyDSN)
      else Inl (Fatal ''dsn must be set''))"
  by (simp add: DSN_def DefaultSQLiteMemoryDSN_def)

text \<open>
  C10. \<^verbatim>\<open>DSN()\<close> rewrites the configured value \<^verbatim>\<open>memory\<close> to
  \<^verbatim>\<open>sqlite://:memory:?_fk=true\<close> and returns every other non-empty configured
  value as it is; an empty or absent value is fatal.
\<close>

theorem DSN_memory_or_verbatim:
  "(p_Get s ViperKeyDSN = VStr ''memory'' \<longrightarrow> DSN e s = Inr ''sqlite://:memory:?_fk=true'') \<and>
   (p_Get s ViperKeyDSN = VStr d \<and> d \<noteq> ''memory'' \<and> d \<noteq> [] \<longrightarrow> DSN e s = Inr d) \<and>
   (\<not> p_Exists s ViperKeyDSN \<or> p_Get s ViperKeyDSN = VStr [] \<longrightarrow>
      DSN e s = Inl (Fatal ''dsn must be set''))"
proof -
  have absent: "\<not> p_Exists s ViperKeyDSN \<Longrightarrow> p_String e s ViperKeyDSN = []"
    by (simp add: p_String_def p_Get_absent)
  have string: "\<And>x. p_Get s ViperKeyDSN = VStr x \<Longrightarrow> p_String e s ViperKeyDSN = x"
    by (simp add: p_String_def)
  show ?thesis
    using absent string by (auto simp add: DSN_by_string)
qed

theorem DSN_memory_or_verbatim_witness:
  "DSN env0 (source_of (VMap [(''dsn'', VStr ''memory'')])) = Inr ''sqlite://:memory:?_fk=true'' \<and>
   DSN env0 (source_of (VMap [(''dsn'', VStr ''postgres://db/kratos'')])) =
     Inr ''postgres://db/kratos'' \<and>
   DSN env0 (source_of (VMap [(''dsn'', VStr [])])) = Inl (Fatal ''dsn must be set'') \<and>
   DSN env0 (source_of (VMap [])) = Inl (Fatal ''dsn must be set'')"
  using DSN_memory_or_verbatim [where e = env0
        and s = "source_of (VMap [(''dsn'', VStr ''memory'')])"]
    DSN_memory_or_verbatim [where e = env0 and d = "''postgres://db/kratos''"
        and s = "source_of (VMap [(''dsn'', VStr ''postgres://db/kratos'')])"]
    DSN_memory_or_verbatim [where e = env0 and s = "source_of (VMap [(''dsn'', VStr [])])"]
    DSN_memory_or_verbatim [where e = env0 and s = "source_of (VMap [])"]
  by (simp add: p_Get_def p_Exists_def source_of_def ViperKeyDSN_def)

subsection \<open>The same-site mode of the session cookie\<close>

text \<open>
  C8, as the claim states it, says that an absent key \<^verbatim>\<open>session.cookie.same_site\<close>
  gives the unspecified mode. On the empty document the key is absent and the
  accessor returns the Lax mode.
\<close>

theorem SessionSameSiteMode_absent_counterexample:
  "\<not> p_Exists (source_of (VMap [])) ViperKeySessionSameSite \<and>
   SessionSameSiteMode env0 (source_of (VMap [])) \<noteq> SameSiteDefaultMode"
  by (simp add: SessionSameSiteMode_def source_eval)

text \<open>
  C8, amended. \<^verbatim>\<open>SessionSameSiteMode()\<close> maps the configured strings \<^verbatim>\<open>Lax\<close>,
  \<^verbatim>\<open>Strict\<close> and \<^verbatim>\<open>None\<close> to the modes of these names and every other configured
  value to the unspecified mode; when the key is absent the fallback \<^verbatim>\<open>Lax\<close> is
  read and the result is the Lax mode.
\<close>

theorem SessionSameSiteMode_mapping:
  "(p_Exists s ViperKeySessionSameSite \<and> p_String e s ViperKeySessionSameSite = ''Lax'' \<longrightarrow>
      SessionSameSiteMode e s = SameSiteLaxMode) \<and>
   (p_Exists s ViperKeySessionSameSite \<and> p_String e s ViperKeySessionSameSite = ''Strict'' \<longrightarrow>
      SessionSameSiteMode e s = SameSiteStrictMode) \<and>
   (p_Exists s ViperKeySessionSameSite \<and> p_String e s ViperKeySessionSameSite = ''None'' \<longrightarrow>
      SessionSameSiteMode e s = SameSiteNoneMode) \<and>
   (p_Exists s ViperKeySessionSameSite \<and>
    p_String e s ViperKeySessionSameSite \<notin> {''Lax'', ''Strict'', ''None''} \<longrightarrow>
      SessionSameSiteMode e s = SameSiteDefaultMode) \<and>
   (\<not> p_Exists s ViperKeySessionSameSite \<longrightarrow> SessionSameSiteMode e s = SameSiteLaxMode)"
  by (simp add: SessionSameSiteMode_def p_StringF_def)

theorem SessionSameSiteMode_mapping_witness:
  "SessionSameSiteMode env0 (same_site_doc ''Lax'') = SameSiteLaxMode \<and>
   SessionSameSiteMode env0 (same_site_doc ''Strict'') = SameSiteStrictMode \<and>
   SessionSameSiteMode env0 (same_site_doc ''None'') = SameSiteNoneMode \<and>
   SessionSameSiteMode env0 (same_site_doc ''lax'') = SameSiteDefaultMode \<and>
   SessionSameSiteMode env0 (source_of (VMap [])) = SameSiteLaxMode"
  using SessionSameSiteMode_mapping [of "same_site_doc ''Lax''" env0]
    SessionSameSiteMode_mapping [of "same_site_doc ''Strict''" env0]
    SessionSameSiteMode_mapping [of "same_site_doc ''None''" env0]
    SessionSameSiteMode_mapping [of "same_site_doc ''lax''" env0]
    SessionSameSiteMode_mapping [of "source_of (VMap [])" env0]
  by (simp add: source_eval same_site_doc_def)

subsection \<open>Self-service strategies\<close>

text \<open>
  C2. When the key \<^verbatim>\<open>selfservice.methods.<name>.enabled\<close> is absent from the
  document, \<^verbatim>\<open>SelfServiceStrategy(name).Enabled\<close> is true for the names
  \<^verbatim>\<open>password\<close>, \<^verbatim>\<open>profile\<close> and \<^verbatim>\<open>link\<close> and false for every other name.
\<close>

theorem SelfServiceStrategy_enabled_when_absent:
  assumes "\<not> p_Exists s (ViperKeySelfServiceStrategyConfig @ ''.'' @ strategy @ ''.enabled'')"
  shows "Enabled (SelfServiceStrategy e s strategy) =
           (strategy \<in> {''password'', ''profile'', ''link''})"
  using assms by (auto simp add: SelfServiceStrategy_def Let_def p_Bool_def p_Get_absent)

theorem SelfServiceStrategy_enabled_when_absent_witness:
  "\<not> p_Exists selfservice_null ''selfservice.methods.password.enabled'' \<and>
   Enabled (SelfServiceStrategy env0 selfservice_null ''password'') \<and>
   Enabled (SelfServiceStrategy env0 selfservice_null ''profile'') \<and>
   Enabled (SelfServiceStrategy env0 selfservice_null ''link'') \<and>
   \<not> Enabled (SelfServiceStrategy env0 selfservice_null ''oidc'')"
  using SelfServiceStrategy_enabled_when_absent [of selfservice_null "''password''" env0]
    SelfServiceStrategy_enabled_when_absent [of selfservice_null "''profile''" env0]
    SelfServiceStrategy_enabled_when_absent [of selfservice_null "''link''" env0]
    SelfServiceStrategy_enabled_when_absent [of selfservice_null "''oidc''" env0]
  by (simp add: source_eval selfservice_null_def)

subsection \<open>Listening address and base URL of the development example\<close>

text \<open>What \<open>New\<close> builds from the example document: the default host \<^verbatim>\<open>0.0.0.0\<close>
  fills the place the document leaves open, and an empty host that the document
  configures stays.\<close>

lemma New_dev_doc:
  "New env0 public_host_default dev_doc = Inr (source_of dev_doc_loaded)"
  "New env0 public_host_default dev_doc_empty_host = Inr (source_of dev_doc_empty_host)"
  by (simp_all add: New_def public_host_default_def dev_doc_def dev_doc_loaded_def
      dev_doc_empty_host_def source_of_def env0_def)

text \<open>
  C5, as the claim states it, says that \<^verbatim>\<open>PublicListenOn()\<close> returns the host name
  of the process followed by \<^verbatim>\<open>:4455\<close>. On the host \<^verbatim>\<open>kratos-1\<close> it does not:
  \<^verbatim>\<open>listenOn\<close> formats the host the source holds and never asks for the host
  name. With the host absent from the document the source holds the default
  \<^verbatim>\<open>0.0.0.0\<close> and the result is \<^verbatim>\<open>0.0.0.0:4455\<close>; with the host configured as
  the empty string it is \<^verbatim>\<open>:4455\<close>.
\<close>

theorem PublicListenOn_hostname_counterexample:
  "Hostname env0 = Some ''kratos-1'' \<and>
   New env0 public_host_default dev_doc = Inr (source_of dev_doc_loaded) \<and>
   PublicListenOn env0 (source_of dev_doc_loaded) = Inr ''0.0.0.0:4455'' \<and>
   PublicListenOn env0 (source_of dev_doc_loaded) \<noteq> Inr (''kratos-1'' @ '':4455'') \<and>
   New env0 public_host_default dev_doc_empty_host = Inr (source_of dev_doc_empty_host) \<and>
   PublicListenOn env0 (source_of dev_doc_empty_host) = Inr '':4455'' \<and>
   PublicListenOn env0 (source_of dev_doc_empty_host) \<noteq> Inr (''kratos-1'' @ '':4455'')"
proof -
  have loaded: "PublicListenOn env0 (source_of dev_doc_loaded) = Inr ''0.0.0.0:4455''"
    by (simp add: PublicListenOn_def listenOn_def source_eval dev_doc_loaded_def itoa_4455)
  have empty: "PublicListenOn env0 (source_of dev_doc_empty_host) = Inr '':4455''"
    by (simp add: PublicListenOn_def listenOn_def source_eval dev_doc_empty_host_def itoa_4455)
  show ?thesis
    unfolding loaded empty New_dev_doc by (simp add: env0_def)
qed

text \<open>
  C5, amended. On every source that holds \<^verbatim>\<open>serve.public.port\<close> 4455, \<^verbatim>\<open>dev\<close> true
  and no public base URL, as the one built from the example document does,
  \<^verbatim>\<open>PublicListenOn()\<close> returns the host the source holds at \<^verbatim>\<open>serve.public.host\<close>
  followed by \<^verbatim>\<open>:4455\<close>: \<^verbatim>\<open>0.0.0.0:4455\<close> when the document leaves the host
  absent and the schema's default \<^verbatim>\<open>0.0.0.0\<close> has been loaded, \<^verbatim>\<open>:4455\<close> when the
  host is configured as the empty string; the host name of the process is not
  part of it. \<^verbatim>\<open>SelfPublicURL()\<close> has the scheme \<^verbatim>\<open>http\<close>, and it is its host that
  is \<^verbatim>\<open><hostname>:4455\<close> when the source holds \<^verbatim>\<open>0.0.0.0\<close> or the empty host.
\<close>

theorem dev_document_listen_and_scheme:
  assumes "p_Get s ViperKeyPublicPort = VInt 4455"
    and "p_Get s ''dev'' = VBool True"
    and "\<not> p_Exists s ViperKeyPublicBaseURL"
  shows "PublicListenOn e s = Inr (p_String e s ViperKeyPublicHost @ '':4455'') \<and>
         Scheme (SelfPublicURL e s) = ''http'' \<and>
         Host (SelfPublicURL e s) =
           (if p_String e s ViperKeyPublicHost = ''0.0.0.0'' \<or> p_String e s ViperKeyPublicHost = []
            then (case Hostname e of None \<Rightarrow> ''127.0.0.1'' | Some h \<Rightarrow> h)
            else p_String e s ViperKeyPublicHost) @ '':4455''"
proof -
  have ex: "p_Exists s ViperKeyPublicPort"
    using assms(1) p_Get_present [of s ViperKeyPublicPort] by simp
  have port: "p_IntF e s ViperKeyPublicPort 4433 = 4455"
    using ex assms(1) by (simp add: p_IntF_def p_Int_def)
  have listen: "PublicListenOn e s = Inr (p_String e s ViperKeyPublicHost @ '':4455'')"
    using port
    by (simp add: PublicListenOn_def listenOn_def itoa_4455 ViperKeyPublicPort_def
        ViperKeyPublicHost_def)
  have guess: "SelfPublicURL e s =
      guessBaseURL e s ViperKeyPublicHost ViperKeyPublicPort 4433"
    using assms(3) by (simp add: SelfPublicURL_def baseURL_def p_Get_absent)
  have dev: "IsInsecureDevMode e s"
    using assms(2) by (simp add: IsInsecureDevMode_def p_Bool_def)
  show ?thesis
    using listen guess dev port
    by (simp add: guessBaseURL_def Let_def itoa_4455 url_zero_def)
qed

theorem dev_document_listen_and_scheme_witness:
  "PublicListenOn env0 (source_of dev_doc_loaded) = Inr ''0.0.0.0:4455'' \<and>
   Scheme (SelfPublicURL env0 (source_of dev_doc_loaded)) = ''http'' \<and>
   Host (SelfPublicURL env0 (source_of dev_doc_loaded)) = ''kratos-1:4455'' \<and>
   PublicListenOn env0 (source_of dev_doc_empty_host) = Inr '':4455'' \<and>
   Scheme (SelfPublicURL env0 (source_of dev_doc_empty_host)) = ''http'' \<and>
   Host (SelfPublicURL env0 (source_of dev_doc_empty_host)) = ''kratos-1:4455''"
  using dev_document_listen_and_scheme [of "source_of dev_doc_loaded" env0]
    dev_document_listen_and_scheme [of "source_of dev_doc_empty_host" env0]
  by (simp add: source_eval dev_doc_loaded_def dev_doc_empty_host_def env0_def)

subsection \<open>Argon2 parameters\<close>

text \<open>Each field of \<^verbatim>\<open>HasherArgon2()\<close> falls back to its default when its own key
  is absent, whatever the other keys hold.\<close>

lemma HasherArgon2_absent_defaults:
  "(\<not> p_Exists s ViperKeyHasherArgon2ConfigMemory \<longrightarrow> Memory (HasherArgon2 e s) = 128 * MB) \<and>
   (\<not> p_Exists s ViperKeyHasherArgon2ConfigIterations \<longrightarrow> Iterations (HasherArgon2 e s) = 1) \<and>
   (\<not> p_Exists s ViperKeyHasherArgon2ConfigParallelism \<longrightarrow>
      Parallelism (HasherArgon2 e s) = word_of_int (2 * NumCPU e)) \<and>
   (\<not> p_Exists s ViperKeyHasherArgon2ConfigSaltLength \<longrightarrow> SaltLength (HasherArgon2 e s) = 16) \<and>
   (\<not> p_Exists s ViperKeyHasherArgon2ConfigKeyLength \<longrightarrow> KeyLength (HasherArgon2 e s) = 32) \<and>
   (\<not> p_Exists s ViperKeyHasherArgon2ConfigExpectedDuration \<longrightarrow>
      ExpectedDuration (HasherArgon2 e s) = 500 * Millisecond) \<and>
   (\<not> p_Exists s ViperKeyHasherArgon2ConfigExpectedDeviation \<longrightarrow>
      ExpectedDeviation (HasherArgon2 e s) = 500 * Millisecond) \<and>
   (\<not> p_Exists s ViperKeyHasherArgon2ConfigDedicatedMemory \<longrightarrow>
      DedicatedMemory (HasherArgon2 e s) = 1 * GB)"
  by (simp add: HasherArgon2_def p_IntF_def p_ByteSizeF_def p_DurationF_def
      Argon2DefaultMemory_def Argon2DefaultIterations_def Argon2DefaultSaltLength_def
      Argon2DefaultKeyLength_def Argon2DefaultDuration_def Argon2DefaultDeviation_def
      Argon2DefaultDedicatedMemory_def Argon2DefaultParallelism_def mult.commute)

text \<open>The example of the specification: only the iterations are configured.\<close>

lemma HasherArgon2_iterations_example:
  "HasherArgon2 e (source_of argon2_doc) =
     \<lparr>Memory = 128 * MB, Iterations = 3, Parallelism = word_of_int (2 * NumCPU e),
      SaltLength = 16, KeyLength = 32, ExpectedDuration = 500 * Millisecond,
      ExpectedDeviation = 500 * Millisecond, DedicatedMemory = 1 * GB\<rparr>"
  by (simp add: HasherArgon2_def p_IntF_def p_ByteSizeF_def p_DurationF_def
      Argon2DefaultMemory_def Argon2DefaultIterations_def Argon2DefaultSaltLength_def
      Argon2DefaultKeyLength_def Argon2DefaultDuration_def Argon2DefaultDeviation_def
      Argon2DefaultDedicatedMemory_def Argon2DefaultParallelism_def mult.commute
      p_Exists_def p_Int_def p_Get_def source_of_def argon2_doc_def keys)

text \<open>On a host with fewer than 128 processing units the default parallelism is
  twice their number.\<close>

lemma Argon2DefaultParallelism_small_host:
  assumes "0 \<le> NumCPU e" and "NumCPU e < 128"
  shows "uint (Argon2DefaultParallelism e) = 2 * NumCPU e"
proof -
  have "uint (word_of_int (NumCPU e * 2) :: 8 word) = (NumCPU e * 2) mod 256"
    by (simp only: uint_word_of_int take_bit_eq_mod) simp
  also have "\<dots> = NumCPU e * 2"
    using assms by simp
  finally show ?thesis
    by (simp only: Argon2DefaultParallelism_def mult.commute)
qed

text \<open>
  C7. The default parallelism is meant to be twice the number of processing units
  of the host. On a host with 128 of them and a document without
  \<^verbatim>\<open>hashers.argon2.parallelism\<close>, the conversion \<^verbatim>\<open>uint8(runtime.NumCPU() * 2)\<close>
  wraps 256 around to 0.
\<close>

theorem HasherArgon2_parallelism_128_cpus:
  "Parallelism (HasherArgon2 (env0\<lparr>NumCPU := 128\<rparr>) (source_of (VMap []))) = 0 \<and>
   2 * NumCPU (env0\<lparr>NumCPU := 128\<rparr>) = 256"
  by (simp add: HasherArgon2_def source_eval Argon2DefaultParallelism_def)

subsection \<open>Base URLs\<close>

lemma parse_example:
  "go_ParseRequestURI ''https://kratos.example.com/'' = Some example_url"
  "go_ParseRequestURI ''kratos.example.com'' = None"
  by code_simp+


text \<open>
  C4. \<^verbatim>\<open>SelfPublicURL()\<close> and \<^verbatim>\<open>SelfAdminURL()\<close> resolve in three tiers: a stored
  \<^verbatim>\<open>url.URL\<close> or \<^verbatim>\<open>*url.URL\<close> is returned as it is; a stored string is parsed as
  a request URI and the result returned; when the parse fails or the key is absent
  (or holds a value of any other type) the result is the guess with the scheme \<^verbatim>\<open>https\<close> (\<^verbatim>\<open>http\<close> in insecure
  development mode), the path \<^verbatim>\<open>/\<close> and the host \<^verbatim>\<open><host>:<port>\<close>, where the port
  defaults to 4433 (public) or 4434 (admin) and an empty configured host is
  replaced by the host name of the process, or by \<^verbatim>\<open>127.0.0.1\<close> when the lookup
  fails.
\<close>

theorem base_url_three_tiers:
  assumes "(acc, kURL, kHost, kPort, dPort) \<in>
    {(SelfPublicURL, ViperKeyPublicBaseURL, ViperKeyPublicHost, ViperKeyPublicPort, 4433),
     (SelfAdminURL, ViperKeyAdminBaseURL, ViperKeyAdminHost, ViperKeyAdminPort, 4434)}"
  shows
    "(p_Get s kURL = VURL u \<or> p_Get s kURL = VURLPtr u \<longrightarrow> acc e s = u) \<and>
     (p_Get s kURL = VStr t \<and> ParseRequestURI e t = Some u \<longrightarrow> acc e s = u) \<and>
     ((p_Get s kURL = VStr t \<and> ParseRequestURI e t = None) \<or> \<not> p_Exists s kURL \<or>
      (\<forall>x. p_Get s kURL \<noteq> VURL x \<and> p_Get s kURL \<noteq> VURLPtr x) \<and> (\<forall>x. p_Get s kURL \<noteq> VStr x) \<longrightarrow>
        acc e s =
          \<lparr>Scheme = (if IsInsecureDevMode e s then ''http'' else ''https''),
           Opaque = [], User = None,
           Host = (if p_String e s kHost = [] \<or> p_String e s kHost = ''0.0.0.0''
                   then (case Hostname e of None \<Rightarrow> ''127.0.0.1'' | Some h \<Rightarrow> h)
                   else p_String e s kHost) @ '':'' @
                  itoa (if p_Exists s kPort then p_Int e s kPort else dPort),
           Path = ''/'', RawPath = [], ForceQuery = False, RawQuery = [],
           Fragment = [], RawFragment = []\<rparr>)"
proof -
  have acc: "acc e s = baseURL e s kURL kHost kPort dPort"
    using assms by (auto simp add: SelfPublicURL_def SelfAdminURL_def)
  have guess: "guessBaseURL e s kHost kPort dPort =
          \<lparr>Scheme = (if IsInsecureDevMode e s then ''http'' else ''https''),
           Opaque = [], User = None,
           Host = (if p_String e s kHost = [] \<or> p_String e s kHost = ''0.0.0.0''
                   then (case Hostname e of None \<Rightarrow> ''127.0.0.1'' | Some h \<Rightarrow> h)
                   else p_String e s kHost) @ '':'' @
                  itoa (if p_Exists s kPort then p_Int e s kPort else dPort),
           Path = ''/'', RawPath = [], ForceQuery = False, RawQuery = [],
           Fragment = [], RawFragment = []\<rparr>"
    by (simp add: guessBaseURL_def Let_def url_zero_def p_IntF_def)
  have other: "(\<forall>x. p_Get s kURL \<noteq> VURL x \<and> p_Get s kURL \<noteq> VURLPtr x) \<and>
      (\<forall>x. p_Get s kURL \<noteq> VStr x) \<Longrightarrow>
      baseURL e s kURL kHost kPort dPort = guessBaseURL e s kHost kPort dPort"
    by (cases "p_Get s kURL") (simp_all add: baseURL_def)
  show ?thesis
    unfolding acc using other
    by (auto simp add: baseURL_def guess p_Get_absent)
qed

theorem base_url_three_tiers_witness:
  "SelfPublicURL env0 (source_of (base_url_doc (VURL example_url))) = example_url \<and>
   SelfPublicURL env0 (source_of (base_url_doc (VStr ''https://kratos.example.com/''))) =
     example_url \<and>
   SelfPublicURL env0 (source_of (base_url_doc (VStr ''kratos.example.com''))) =
     url_zero\<lparr>Scheme := ''https'', Host := ''kratos-1:4433'', Path := ''/''\<rparr> \<and>
   SelfPublicURL env0 (source_of (base_url_doc (VInt 7))) =
     url_zero\<lparr>Scheme := ''https'', Host := ''kratos-1:4433'', Path := ''/''\<rparr> \<and>
   SelfAdminURL env0 (source_of (VMap [(''dev'', VBool True)])) =
     url_zero\<lparr>Scheme := ''http'', Host := ''kratos-1:4434'', Path := ''/''\<rparr> \<and>
   SelfAdminURL (env0\<lparr>Hostname := None\<rparr>) (source_of (VMap [])) =
     url_zero\<lparr>Scheme := ''https'', Host := ''127.0.0.1:4434'', Path := ''/''\<rparr>"
proof -
  have pub: "(SelfPublicURL, ViperKeyPublicBaseURL, ViperKeyPublicHost, ViperKeyPublicPort, 4433) \<in>
    {(SelfPublicURL, ViperKeyPublicBaseURL, ViperKeyPublicHost, ViperKeyPublicPort, 4433),
     (SelfAdminURL, ViperKeyAdminBaseURL, ViperKeyAdminHost, ViperKeyAdminPort, 4434)}"
    by simp
  have adm: "(SelfAdminURL, ViperKeyAdminBaseURL, ViperKeyAdminHost, ViperKeyAdminPort, 4434) \<in>
    {(SelfPublicURL, ViperKeyPublicBaseURL, ViperKeyPublicHost, ViperKeyPublicPort, 4433),
     (SelfAdminURL, ViperKeyAdminBaseURL, ViperKeyAdminHost, ViperKeyAdminPort, 4434)}"
    by simp
  have i4433: "itoa 4433 = ''4433''" and i4434: "itoa 4434 = ''4434''"
    by (simp_all add: itoa_def digit_chars.simps)
  show ?thesis
    using base_url_three_tiers [OF pub, where e = env0 and u = example_url
          and s = "source_of (base_url_doc (VURL example_url))"]
      base_url_three_tiers [OF pub, where e = env0 and u = example_url
          and t = "''https://kratos.example.com/''"
          and s = "source_of (base_url_doc (VStr ''https://kratos.example.com/''))"]
      base_url_three_tiers [OF pub, where e = env0 and t = "''kratos.example.com''"
          and s = "source_of (base_url_doc (VStr ''kratos.example.com''))"]
      base_url_three_tiers [OF pub, where e = env0
          and s = "source_of (base_url_doc (VInt 7))"]
      base_url_three_tiers [OF adm, where e = env0
          and s = "source_of (VMap [(''dev'', VBool True)])"]
      base_url_three_tiers [OF adm, where e = "env0\<lparr>Hostname := None\<rparr>"
          and s = "source_of (VMap [])"]
    by (simp add: source_eval base_url_doc_def env0_def IsInsecureDevMode_def i4433 i4434
        url_zero_def parse_example)
qed

subsection \<open>Hooks\<close>

text \<open>
  C6. For every hooks key, if the key is absent, or the raw JSON found at the key
  is empty, the accessor returns the empty list and no error; and every hook the
  decoder returns with an empty \<^verbatim>\<open>config\<close> is returned with the configuration
  \<^verbatim>\<open>{}\<close>, the others unchanged.
\<close>

theorem selfServiceHooks_absent_empty_config_default:
  "(\<not> p_Exists s key \<longrightarrow> selfServiceHooks e s key = Inr []) \<and>
   (Marshal e (document s) = Some out \<and> GJsonRaw e out key = [] \<longrightarrow>
      selfServiceHooks e s key = Inr []) \<and>
   (p_Exists s key \<and> Marshal e (document s) = Some out \<and> GJsonRaw e out key \<noteq> [] \<and>
    DecodeHooks e (GJsonRaw e out key) = Some hooks \<longrightarrow>
      (\<exists>r. selfServiceHooks e s key = Inr r \<and> length r = length hooks \<and>
           (\<forall>i < length hooks.
              Name (r ! i) = Name (hooks ! i) \<and>
              HookConfig (r ! i) =
                (if HookConfig (hooks ! i) = [] then ''{}'' else HookConfig (hooks ! i)))))"
  by (simp add: selfServiceHooks_def Let_def)

theorem selfServiceHooks_absent_empty_config_default_witness:
  "SelfServiceFlowLoginBeforeHooks env_hooks (source_of hooks_doc) = Inr [] \<and>
   SelfServiceFlowRegistrationAfterHooks env_hooks (source_of hooks_doc) ''password'' = Inr [] \<and>
   (\<exists>r. SelfServiceFlowLoginAfterHooks env_hooks (source_of hooks_doc) ''password'' = Inr r \<and>
        length r = 1 \<and> Name (r ! 0) = ''revoke_active_sessions'' \<and> HookConfig (r ! 0) = ''{}'')"
  using selfServiceHooks_absent_empty_config_default
      [of "source_of hooks_doc" ViperKeySelfServiceLoginBeforeHooks env_hooks hooks_doc_json]
    selfServiceHooks_absent_empty_config_default
      [of "source_of hooks_doc" "HookStrategyKey ViperKeySelfServiceRegistrationAfter ''password''"
        env_hooks hooks_doc_json]
    selfServiceHooks_absent_empty_config_default
      [of "source_of hooks_doc" "HookStrategyKey ViperKeySelfServiceLoginAfter ''password''"
        env_hooks hooks_doc_json
        "[\<lparr>Name = ''revoke_active_sessions'', HookConfig = []\<rparr>]"]
  by (simp add: SelfServiceFlowLoginBeforeHooks_def SelfServiceFlowRegistrationAfterHooks_def
      SelfServiceFlowLoginAfterHooks_def HookStrategyKey_def env_hooks_def env0_def hooks_doc_def
      hooks_raw_def source_eval)

subsection \<open>Identity schemas\<close>

lemma parse_default_schema_url:
  "go_ParseRequestURI ''file:///etc/default.schema.json'' =
     Some (url_zero\<lparr>Scheme := ''file'', Path := ''/etc/default.schema.json''\<rparr>)"
  "go_URL_String (url_zero\<lparr>Scheme := ''file'', Path := ''/etc/default.schema.json''\<rparr>) =
     ''file:///etc/default.schema.json''"
  by code_simp+

lemmas schemas_eval =
  IdentityTraitsSchemas_def DefaultIdentityTraitsSchemaURL_def parseURIOrFail_def
  env_schemas_def env0_def schemas_doc_def no_schemas_doc_def schemas_raw_def
  schemas_doc_json_def parse_default_schema_url

text \<open>
  What the accessor does on every source whose default schema URL parses: it
  returns the explicit schemas, in their order, followed by the entry with the id
  \<^verbatim>\<open>default\<close> and the default schema URL, the entry alone when the key
  \<^verbatim>\<open>identity.schemas\<close> is absent or its raw JSON empty. It does not look at the ids
  of the explicit schemas: the default entry is the only one with its id exactly
  when no explicit schema has that id.
\<close>

lemma IdentityTraitsSchemas_appends_default:
  assumes "DefaultIdentityTraitsSchemaURL e s = Inr u"
  shows
    "(\<not> p_Exists s ViperKeyIdentitySchemas \<longrightarrow>
        IdentityTraitsSchemas e s = Inr [\<lparr>ID = ''default'', URL = URLString e u\<rparr>]) \<and>
     (Marshal e (document s) = Some out \<and> GJsonRaw e out ViperKeyIdentitySchemas = [] \<longrightarrow>
        IdentityTraitsSchemas e s = Inr [\<lparr>ID = ''default'', URL = URLString e u\<rparr>]) \<and>
     (p_Exists s ViperKeyIdentitySchemas \<and> Marshal e (document s) = Some out \<and>
      GJsonRaw e out ViperKeyIdentitySchemas \<noteq> [] \<and>
      DecodeSchemas e (GJsonRaw e out ViperKeyIdentitySchemas) = Some explicit \<longrightarrow>
        IdentityTraitsSchemas e s = Inr (explicit @ [\<lparr>ID = ''default'', URL = URLString e u\<rparr>])) \<and>
     (\<forall>ss. IdentityTraitsSchemas e s = Inr ss \<longrightarrow>
        ss \<noteq> [] \<and> last ss = \<lparr>ID = ''default'', URL = URLString e u\<rparr> \<and>
        (length (filter (\<lambda>x. ID x = ''default'') ss) = 1 \<longleftrightarrow>
           (\<forall>x \<in> set (butlast ss). ID x \<noteq> ''default'')))"
proof (intro conjI impI allI)
  fix ss
  assume r: "IdentityTraitsSchemas e s = Inr ss"
  let ?ds = "\<lparr>ID = ''default'', URL = URLString e u\<rparr>"
  from r assms obtain xs where ss: "ss = xs @ [?ds]"
    by (auto simp add: IdentityTraitsSchemas_def Let_def DefaultIdentityTraitsSchemaID_def
        split: if_splits option.splits)
  show "ss \<noteq> []" using ss by simp
  show "last ss = ?ds" using ss by simp
  show "length (filter (\<lambda>x. ID x = ''default'') ss) = 1 \<longleftrightarrow>
           (\<forall>x \<in> set (butlast ss). ID x \<noteq> ''default'')"
    unfolding ss by (simp add: filter_empty_conv)
qed (use assms in \<open>simp_all add: IdentityTraitsSchemas_def Let_def DefaultIdentityTraitsSchemaID_def\<close>)

text \<open>
  The accessor does not enforce this itself. On a source that holds an explicit
  schema with the id \<^verbatim>\<open>default\<close>, which only a schema without the rule below would
  admit, the list has two entries with that id.
\<close>

lemma IdentityTraitsSchemas_no_dedup:
  "IdentityTraitsSchemas (env_schemas ''default'') (source_of (schemas_doc ''default'')) =
     Inr [\<lparr>ID = ''default'', URL = ''file:///etc/other.schema.json''\<rparr>,
          \<lparr>ID = ''default'', URL = ''file:///etc/default.schema.json''\<rparr>]"
  by (simp add: schemas_eval source_eval)



subsection \<open>Secret provisioning\<close>










subsection \<open>Reparsing a guessed base URL\<close>

text \<open>What the bytes of a host that needs no escaping cannot be, checked on all 256
  bytes, and what a decimal digit is.\<close>

lemma host_bytes:
  "\<forall>c. (\<not> shouldEscape c encodeHost \<longrightarrow>
          c \<noteq> CHR ''/'' \<and> c \<noteq> CHR ''?'' \<and> c \<noteq> CHR ''@'' \<and> c \<noteq> CHR ''%'' \<and>
          \<not> (byte c < byte CHR '' '' \<or> byte c = 127)) \<and>
       (is_digit c \<longrightarrow> \<not> shouldEscape c encodeHost \<and> c \<noteq> CHR '':'')"
  by code_simp

lemmas char_defs = byte_def is_alpha_def is_digit_def

text \<open>The sixteen hexadecimal digits that \<^verbatim>\<open>escape\<close> writes.\<close>

lemma hex_table:
  assumes "k < 16"
  shows "ishex (''0123456789ABCDEF'' ! k) \<and> unhex (''0123456789ABCDEF'' ! k) = k \<and>
         \<not> shouldEscape (''0123456789ABCDEF'' ! k) encodeHost \<and>
         ''0123456789ABCDEF'' ! k \<noteq> CHR '']'' \<and> ''0123456789ABCDEF'' ! k \<noteq> CHR '':'' \<and>
         (''0123456789ABCDEF'' ! k = CHR ''2'') = (k = 2) \<and>
         (''0123456789ABCDEF'' ! k = CHR ''5'') = (k = 5)"
proof -
  from assms have "k = 0 \<or> k = 1 \<or> k = 2 \<or> k = 3 \<or> k = 4 \<or> k = 5 \<or> k = 6 \<or> k = 7 \<or>
      k = 8 \<or> k = 9 \<or> k = 10 \<or> k = 11 \<or> k = 12 \<or> k = 13 \<or> k = 14 \<or> k = 15"
    by arith
  then show ?thesis
    by (elim disjE) (simp_all add: ishex_def unhex_def shouldEscape_def char_defs)
qed

text \<open>The escape of a byte: the byte itself, or a percent sign and two hexadecimal
  digits that give the byte again.\<close>

lemma escaped_byte:
  assumes "shouldEscape c encodeHost"
  obtains a b where "escape_byte c encodeHost = [CHR ''%'', a, b]"
    and "ishex a" and "ishex b"
    and "char_of (unhex a * 16 + unhex b) = c"
    and "(unhex a < 8) = (byte c < 128)"
    and "(a = CHR ''2'' \<and> b = CHR ''5'') = (c = CHR ''%'')"
    and "\<not> shouldEscape a encodeHost" and "\<not> shouldEscape b encodeHost"
    and "a \<noteq> CHR '']''" and "b \<noteq> CHR '']''" and "a \<noteq> CHR '':''" and "b \<noteq> CHR '':''"
proof -
  let ?a = "''0123456789ABCDEF'' ! (byte c div 16)"
  let ?b = "''0123456789ABCDEF'' ! (byte c mod 16)"
  have n: "byte c < 256"
    by (simp add: byte_def)
  then have hi: "byte c div 16 < 16" and lo: "byte c mod 16 < 16"
    by simp_all
  note ta = hex_table [OF hi] and tb = hex_table [OF lo]
  have e: "escape_byte c encodeHost = [CHR ''%'', ?a, ?b]"
    using assms by (simp add: escape_byte_def)
  have again: "char_of (unhex ?a * 16 + unhex ?b) = c"
  proof -
    have "unhex ?a * 16 + unhex ?b = byte c"
      using ta tb by simp
    then show ?thesis by (simp add: byte_def)
  qed
  have high: "(unhex ?a < 8) = (byte c < 128)"
    using ta by auto
  have pc: "(?a = CHR ''2'' \<and> ?b = CHR ''5'') = (c = CHR ''%'')"
  proof -
    have "(?a = CHR ''2'' \<and> ?b = CHR ''5'') = (byte c div 16 = 2 \<and> byte c mod 16 = 5)"
      using ta tb by simp
    also have "\<dots> = (byte c = 37)"
      by presburger
    also have "\<dots> = (c = CHR ''%'')"
    proof
      assume "byte c = 37"
      then have "(of_char c :: nat) = of_char CHR ''%''" by (simp add: byte_def)
      then show "c = CHR ''%''" by (simp only: of_char_eq_iff)
    next
      assume "c = CHR ''%''"
      then show "byte c = 37" by (simp add: byte_def)
    qed
    finally show ?thesis .
  qed
  show thesis
    using that [OF e] ta tb again high pc by blast
qed

lemma plain_byte:
  assumes "\<not> shouldEscape c encodeHost"
  shows "escape_byte c encodeHost = [c]" and "c \<noteq> CHR ''%''" and "c \<noteq> CHR ''/''"
    and "c \<noteq> CHR ''?''" and "c \<noteq> CHR ''@''" and "\<not> (byte c < 32 \<or> byte c = 127)"
  using assms host_bytes by (simp_all add: escape_byte_def byte_def)

lemma special_bytes:
  "shouldEscape CHR ''%'' encodeHost" "\<not> shouldEscape CHR '']'' encodeHost"
  "\<not> shouldEscape CHR ''['' encodeHost" "\<not> shouldEscape CHR '':'' encodeHost"
  "\<not> shouldEscape CHR ''-'' encodeHost" "shouldEscape CHR '' '' encodeHost"
  by (simp_all add: shouldEscape_def char_defs)

lemma escape_Cons: "escape (c # cs) mode = escape_byte c mode @ escape cs mode"
  by (simp add: escape_def)

lemma escape_Nil: "escape [] mode = []"
  by (simp add: escape_def)

lemma escape_append: "escape (xs @ ys) mode = escape xs mode @ escape ys mode"
  by (simp add: escape_def)

text \<open>Unescaping the escape of a host gives the host again, when it is accepted.\<close>

lemma unescape_bytes_escape:
  assumes "m = encodeHost \<or> m = encodeZone"
  shows "unescape_bytes (escape h encodeHost @ r) m = h @ unescape_bytes r m"
proof (induction h)
  case Nil
  show ?case by (simp add: escape_Nil)
next
  case (Cons c cs)
  show ?case
  proof (cases "shouldEscape c encodeHost")
    case True
    then obtain a b where e: "escape_byte c encodeHost = [CHR ''%'', a, b]"
      and again: "char_of (unhex a * 16 + unhex b) = c"
      by (rule escaped_byte)
    show ?thesis
      using Cons.IH again by (simp add: escape_Cons e)
  next
    case False
    show ?thesis
      using Cons.IH plain_byte(1,2) [OF False] assms by (auto simp add: escape_Cons)
  qed
qed

lemma unescape_ok_escape_host:
  "unescape_ok (escape h encodeHost @ r) encodeHost =
     (list_all host_byte_reparses h \<and> unescape_ok r encodeHost)"
proof (induction h)
  case Nil
  show ?case by (simp add: escape_Nil)
next
  case (Cons c cs)
  show ?case
  proof (cases "shouldEscape c encodeHost")
    case True
    then obtain a b where e: "escape_byte c encodeHost = [CHR ''%'', a, b]"
      and hex: "ishex a" "ishex b"
      and high: "(unhex a < 8) = (byte c < 128)"
      and pc: "(a = CHR ''2'' \<and> b = CHR ''5'') = (c = CHR ''%'')"
      by (rule escaped_byte)
    have "host_byte_reparses c = (\<not> (unhex a < 8 \<and> \<not> (a = CHR ''2'' \<and> b = CHR ''5'')))"
      using True high pc by (auto simp add: host_byte_reparses_def)
    then show ?thesis
      using Cons.IH hex by (simp add: escape_Cons e)
  next
    case False
    show ?thesis
      using Cons.IH plain_byte(1,2) [OF False] False
      by (simp add: escape_Cons host_byte_reparses_def)
  qed
qed

lemma unescape_ok_escape_zone:
  "unescape_ok (escape h encodeHost @ r) encodeZone =
     (list_all zone_byte_reparses h \<and> unescape_ok r encodeZone)"
proof (induction h)
  case Nil
  show ?case by (simp add: escape_Nil)
next
  case (Cons c cs)
  show ?case
  proof (cases "shouldEscape c encodeHost")
    case True
    then obtain a b where e: "escape_byte c encodeHost = [CHR ''%'', a, b]"
      and hex: "ishex a" "ishex b"
      and again: "char_of (unhex a * 16 + unhex b) = c"
      and pc: "(a = CHR ''2'' \<and> b = CHR ''5'') = (c = CHR ''%'')"
      by (rule escaped_byte)
    have "zone_byte_reparses c = (\<not> (\<not> (a = CHR ''2'' \<and> b = CHR ''5'') \<and> c \<noteq> CHR '' ''))"
      using True pc by (auto simp add: zone_byte_reparses_def)
    then show ?thesis
      using Cons.IH hex again True by (simp add: escape_Cons e)
  next
    case False
    show ?thesis
      using Cons.IH plain_byte(1,2) [OF False] False
      by (simp add: escape_Cons zone_byte_reparses_def)
  qed
qed


lemma unescape_escape_host:
  "unescape (escape h encodeHost @ r) encodeHost =
     (if list_all host_byte_reparses h \<and> unescape_ok r encodeHost
      then Some (h @ unescape_bytes r encodeHost) else None)"
  by (simp add: unescape_def unescape_ok_escape_host unescape_bytes_escape)

lemma unescape_escape_zone:
  "unescape (escape h encodeHost @ r) encodeZone =
     (if list_all zone_byte_reparses h \<and> unescape_ok r encodeZone
      then Some (h @ unescape_bytes r encodeZone) else None)"
  by (simp add: unescape_def unescape_ok_escape_zone unescape_bytes_escape)

text \<open>The bytes of an escaped host.\<close>

lemma escape_host_bytes:
  assumes "x \<in> set (escape h encodeHost)"
  shows "x \<noteq> CHR ''/'' \<and> x \<noteq> CHR ''?'' \<and> x \<noteq> CHR ''@'' \<and> \<not> (byte x < 32 \<or> byte x = 127)"
  using assms
proof (induction h)
  case Nil
  then show ?case by (simp add: escape_Nil)
next
  case (Cons c cs)
  show ?case
  proof (cases "shouldEscape c encodeHost")
    case True
    then obtain a b where e: "escape_byte c encodeHost = [CHR ''%'', a, b]"
      and pa: "\<not> shouldEscape a encodeHost" and pb: "\<not> shouldEscape b encodeHost"
      by (rule escaped_byte)
    have "x = CHR ''%'' \<or> x = a \<or> x = b \<or> x \<in> set (escape cs encodeHost)"
      using Cons.prems by (auto simp add: escape_Cons e)
    then show ?thesis
      using plain_byte [OF pa] plain_byte [OF pb] Cons.IH by (auto simp add: byte_def)
  next
    case False
    have "x = c \<or> x \<in> set (escape cs encodeHost)"
      using Cons.prems plain_byte(1) [OF False] by (auto simp add: escape_Cons)
    then show ?thesis
      using plain_byte [OF False] Cons.IH by auto
  qed
qed

lemma rbracket_escape:
  "(CHR '']'' \<in> set (escape h encodeHost)) = (CHR '']'' \<in> set h)"
proof (induction h)
  case Nil
  show ?case by (simp add: escape_Nil)
next
  case (Cons c cs)
  show ?case
  proof (cases "shouldEscape c encodeHost")
    case True
    then obtain a b where e: "escape_byte c encodeHost = [CHR ''%'', a, b]"
      and na: "a \<noteq> CHR '']''" and nb: "b \<noteq> CHR '']''"
      by (rule escaped_byte)
    have "c \<noteq> CHR '']''"
      using True special_bytes(2) by auto
    then show ?thesis
      using Cons.IH na nb by (auto simp add: escape_Cons e)
  next
    case False
    show ?thesis
      using Cons.IH plain_byte(1) [OF False] by (auto simp add: escape_Cons)
  qed
qed

lemma escape_bracket_prefix:
  "has_prefix (escape h encodeHost @ CHR '':'' # p) ''['' = has_prefix h ''[''"
proof (cases h)
  case Nil
  show ?thesis by (simp add: Nil escape_Nil has_prefix_def)
next
  case (Cons c cs)
  show ?thesis
  proof (cases "shouldEscape c encodeHost")
    case True
    then obtain a b where e: "escape_byte c encodeHost = [CHR ''%'', a, b]"
      by (rule escaped_byte)
    have "c \<noteq> CHR ''[''"
      using True special_bytes(3) by auto
    then show ?thesis
      by (simp add: Cons escape_Cons e has_prefix_def)
  next
    case False
    show ?thesis
      using plain_byte(1) [OF False] by (simp add: Cons escape_Cons has_prefix_def)
  qed
qed

text \<open>Where the escape of a percent sign first occurs in an escaped host.\<close>

lemma Index_escape:
  assumes "CHR ''%'' \<notin> set q"
  shows "Index (escape q encodeHost @ r) ''%25'' =
           (if Index r ''%25'' < 0 then - 1
            else int (length (escape q encodeHost)) + Index r ''%25'')"
  using assms
proof (induction q)
  case Nil
  show ?case
    by (cases r) (simp_all add: escape_Nil Let_def)
next
  case (Cons c cs)
  then have IH: "Index (escape cs encodeHost @ r) ''%25'' =
           (if Index r ''%25'' < 0 then - 1
            else int (length (escape cs encodeHost)) + Index r ''%25'')"
    and c: "c \<noteq> CHR ''%''"
    by auto
  show ?case
  proof (cases "shouldEscape c encodeHost")
    case True
    then obtain a b where e: "escape_byte c encodeHost = [CHR ''%'', a, b]"
      and pc: "(a = CHR ''2'' \<and> b = CHR ''5'') = (c = CHR ''%'')"
      and pa: "\<not> shouldEscape a encodeHost" and pb: "\<not> shouldEscape b encodeHost"
      by (rule escaped_byte)
    have ab: "a \<noteq> CHR ''%''" "b \<noteq> CHR ''%''"
      using plain_byte(2) [OF pa] plain_byte(2) [OF pb] by simp_all
    show ?thesis
      using IH c pc ab by (auto simp add: escape_Cons e has_prefix_def Let_def)
  next
    case False
    show ?thesis
      using IH c plain_byte(1) [OF False]
      by (auto simp add: escape_Cons has_prefix_def Let_def)
  qed
qed

lemma Index_escape_absent:
  "CHR ''%'' \<notin> set q \<Longrightarrow> Index (escape q encodeHost) ''%25'' = - 1"
  using Index_escape [of q "[]"] by simp

lemma Index_escape_first:
  assumes "CHR ''%'' \<notin> set q"
  shows "Index (escape (q @ CHR ''%'' # t) encodeHost) ''%25'' = int (length (escape q encodeHost))"
proof -
  have e: "escape (q @ CHR ''%'' # t) encodeHost =
      escape q encodeHost @ (''%25'' @ escape t encodeHost)"
    by (simp add: escape_append escape_Cons escape_byte_def special_bytes byte_def)
  have "Index (''%25'' @ escape t encodeHost) ''%25'' = 0"
    by (simp add: has_prefix_def)
  then show ?thesis
    unfolding e using Index_escape [OF assms, of "''%25'' @ escape t encodeHost"] by simp
qed

lemma digit_table: "k < 10 \<Longrightarrow> is_digit (''0123456789'' ! k)"
proof -
  assume "k < 10"
  then have "k = 0 \<or> k = 1 \<or> k = 2 \<or> k = 3 \<or> k = 4 \<or> k = 5 \<or> k = 6 \<or> k = 7 \<or> k = 8 \<or> k = 9"
    by arith
  then show ?thesis
    by (elim disjE) (simp_all add: is_digit_def byte_def)
qed

lemma digit_chars_digits: "list_all is_digit (digit_chars n)"
proof (induction n rule: digit_chars.induct)
  case (1 n)
  show ?case
  proof (cases "n < 10")
    case True
    then show ?thesis by (simp add: digit_chars.simps [of n] digit_table)
  next
    case False
    then show ?thesis
      using "1.IH" by (simp add: digit_chars.simps [of n] digit_table)
  qed
qed

text \<open>Escaping and unescaping leave a string of bytes that need no escape as it is.\<close>

lemma escape_plain:
  "list_all (\<lambda>c. \<not> shouldEscape c mode) s \<Longrightarrow> escape s mode = s"
  by (induction s) (simp_all add: escape_def escape_byte_def)

lemma unescape_plain:
  assumes "list_all (\<lambda>c. \<not> shouldEscape c encodeHost) s"
  shows "unescape s encodeHost = Some s"
proof -
  have "unescape_ok s encodeHost \<and> unescape_bytes s encodeHost = s"
    using assms
  proof (induction s)
    case Nil
    show ?case by simp
  next
    case (Cons c cs)
    have "c \<noteq> CHR ''%''" using Cons.prems host_bytes by simp
    then show ?case using Cons by simp
  qed
  then show ?thesis by (simp add: unescape_def)
qed

text \<open>Searching and splitting a string at a byte that occurs once, or not at all.\<close>

lemma LastIndexByte_absent: "c \<notin> set s \<Longrightarrow> LastIndexByte s c = - 1"
  by (simp add: LastIndexByte_def)

lemma LastIndexByte_last:
  assumes "c \<notin> set ds"
  shows "LastIndexByte (h @ c # ds) c = int (length h)"
proof -
  have "takeWhile (\<lambda>x. x \<noteq> c) (rev ds @ c # rev h) = rev ds"
    using assms by (auto simp add: takeWhile_tail)
  then show ?thesis by (simp add: LastIndexByte_def)
qed

lemma url_split_absent: "c \<notin> set s \<Longrightarrow> url_split s c cutc = (s, [])"
  by (simp add: url_split_def)

lemma url_split_first:
  assumes "c \<notin> set h"
  shows "url_split (h @ c # t) c False = (h, c # t)"
  using assms by (auto simp add: url_split_def takeWhile_tail dropWhile_append3)

text \<open>The steps of the parser on \<^verbatim>\<open><scheme>://<host>:<port>/\<close>.\<close>


lemma getScheme_http: "getScheme (''http'' @ CHR '':'' # rest) = Some (''http'', rest)"
  by (simp add: getScheme_def char_defs)

lemma getScheme_https: "getScheme (''https'' @ CHR '':'' # rest) = Some (''https'', rest)"
  by (simp add: getScheme_def char_defs)

lemma ToLower_http: "ToLower ''http'' = ''http''" "ToLower ''https'' = ''https''"
  by (simp_all add: ToLower_def byte_def)

lemma slash_path: "escape ''/'' encodePath = ''/''" "unescape ''/'' encodePath = Some ''/''"
  by (simp_all add: escape_def escape_byte_def unescape_def shouldEscape_def char_defs)

lemma has_suffix_slash: "\<not> has_suffix (s @ ''/'') ''?''"
  by (simp add: has_suffix_def)


text \<open>The decimal form of a port.\<close>

lemma itoa_bytes: "list_all (\<lambda>c. is_digit c \<or> c = CHR ''-'') (itoa n)"
  using digit_chars_digits [of "nat n"] digit_chars_digits [of "nat (- n)"]
  by (auto simp add: itoa_def list_all_iff)

lemma itoa_digits: "list_all is_digit (itoa n) = (0 \<le> n)"
  using digit_chars_digits [of "nat n"] by (simp add: itoa_def is_digit_def byte_def)

text \<open>\<^verbatim>\<open>parseHost\<close> on a host in brackets whose last closing bracket is at \<open>i\<close>.\<close>

lemma parseHost_bracket:
  assumes "has_prefix host ''[''" and "LastIndexByte host CHR '']'' = int i"
  shows "parseHost host =
     (if \<not> validOptionalPort (drop (Suc i) host) then None
      else if 0 \<le> Index (take i host) ''%25''
      then (case unescape (take (nat (Index (take i host) ''%25'')) host) encodeHost of
              None \<Rightarrow> None
            | Some host1 \<Rightarrow>
                (case unescape (drop (nat (Index (take i host) ''%25'')) (take i host))
                        encodeZone of
                   None \<Rightarrow> None
                 | Some host2 \<Rightarrow>
                     (case unescape (drop i host) encodeHost of
                        None \<Rightarrow> None
                      | Some host3 \<Rightarrow> Some (host1 @ host2 @ host3))))
      else unescape host encodeHost)"
proof -
  have "nat (int i + 1) = Suc i"
    by simp
  then show ?thesis
    using assms by (simp add: parseHost_def Let_def cong: option.case_cong)
qed

text \<open>
  The parser's reading of the host of a guessed URL, as \<^verbatim>\<open>String\<close> wrote it: it
  succeeds, and gives the host back, exactly when the port is a string of digits
  and the host is one of those described by \<open>host_reparses\<close>.
\<close>

lemma parseHost_escaped:
  assumes p: "list_all (\<lambda>c. is_digit c \<or> c = CHR ''-'') p"
  shows "parseHost (escape h encodeHost @ CHR '':'' # p) =
           (if list_all is_digit p \<and> host_reparses h then Some (h @ CHR '':'' # p) else None)"
proof -
  let ?E = "escape h encodeHost @ CHR '':'' # p"
  have pplain: "list_all (\<lambda>c. \<not> shouldEscape c encodeHost) p"
    using p host_bytes special_bytes(5) by (auto simp add: list_all_iff)
  have pc: "CHR '':'' \<notin> set p" "CHR '']'' \<notin> set p"
    using p by (auto simp add: list_all_iff is_digit_def byte_def)
  have vp: "validOptionalPort (CHR '':'' # p) = list_all is_digit p"
    by (simp add: validOptionalPort_def)
  have tail: "unescape_ok (CHR '':'' # p) encodeHost"
    "unescape_bytes (CHR '':'' # p) encodeHost = CHR '':'' # p"
    using unescape_plain [of "CHR '':'' # p"] pplain special_bytes(4)
    by (simp_all add: unescape_def split: if_splits)
  show ?thesis
  proof (cases "has_prefix h ''[''")
    case False
    have nb: "\<not> has_prefix ?E ''[''"
      using False by (simp add: escape_bracket_prefix)
    have li: "LastIndexByte ?E CHR '':'' = int (length (escape h encodeHost))"
      using pc(1) by (rule LastIndexByte_last)
    have un: "unescape ?E encodeHost =
        (if list_all host_byte_reparses h then Some (h @ CHR '':'' # p) else None)"
      using tail by (simp only: unescape_escape_host) simp
    show ?thesis
      using False nb li vp un by (simp add: parseHost_def host_reparses_def)
  next
    case True
    then have hne: "h \<noteq> []"
      by (auto simp add: has_prefix_def)
    have br: "has_prefix ?E ''[''"
      using True by (simp add: escape_bracket_prefix)
    show ?thesis
    proof (cases "CHR '']'' \<in> set h")
      case False
      then have "CHR '']'' \<notin> set ?E"
        using pc(2) by (simp add: rbracket_escape)
      then have li: "LastIndexByte ?E CHR '']'' = - 1"
        by (rule LastIndexByte_absent)
      have "last h \<noteq> CHR '']''"
        using False last_in_set [OF hne] by metis
      then show ?thesis
        using True br li by (simp add: parseHost_def host_reparses_def)
    next
      case in_h: True
      then obtain body t where h: "h = body @ CHR '']'' # t" and nt: "CHR '']'' \<notin> set t"
        by (meson split_list_last)
      let ?B = "escape body encodeHost"
      let ?T = "escape t encodeHost"
      have E: "?E = ?B @ CHR '']'' # (?T @ CHR '':'' # p)"
        by (simp add: h escape_append escape_Cons escape_byte_def special_bytes)
      have li: "LastIndexByte ?E CHR '']'' = int (length ?B)"
        unfolding E using nt pc(2) by (intro LastIndexByte_last) (simp add: rbracket_escape)
      have dr1: "drop (Suc (length ?B)) ?E = ?T @ CHR '':'' # p"
        unfolding E by simp
      show ?thesis
      proof (cases "t = []")
        case False
        then obtain c cs where t: "t = c # cs"
          by (cases t) auto
        have "escape_byte c encodeHost \<noteq> []"
          by (simp add: escape_byte_def)
        then obtain x xs where T: "?T = x # xs"
          by (cases ?T) (auto simp add: t escape_Cons)
        have nv: "\<not> validOptionalPort (?T @ CHR '':'' # p)"
          by (simp add: T validOptionalPort_def is_digit_def byte_def)
        have "last h = last t"
          using h False by simp
        then have "last h \<noteq> CHR '']''"
          using nt last_in_set [OF False] by metis
        then have hr: "\<not> host_reparses h"
          using True by (simp add: host_reparses_def)
        show ?thesis
          unfolding parseHost_bracket [OF br li] by (simp only: dr1 nv hr) simp
      next
        case tnil: True
        have hb: "h = body @ '']''"
          using h tnil by simp
        have lh: "last h = CHR '']''" and bl: "butlast h = body"
          by (simp_all add: hb)
        have E': "?E = ?B @ CHR '']'' # CHR '':'' # p"
          using E tnil by (simp add: escape_Nil)
        have dr1': "drop (Suc (length ?B)) ?E = CHR '':'' # p"
          using dr1 tnil by (simp add: escape_Nil)
        have tk: "take (length ?B) ?E = ?B"
          unfolding E' by simp
        have dr: "drop (length ?B) ?E = CHR '']'' # CHR '':'' # p"
          unfolding E' by simp
        have tail3: "unescape (CHR '']'' # CHR '':'' # p) encodeHost = Some (CHR '']'' # CHR '':'' # p)"
          using pplain special_bytes(2,4) by (intro unescape_plain) simp
        show ?thesis
        proof (cases "list_all is_digit p")
          case False
          then have "\<not> validOptionalPort (drop (Suc (length ?B)) ?E)"
            by (simp only: dr1' vp) simp
          then show ?thesis
            unfolding parseHost_bracket [OF br li] using False by (simp only:) simp
        next
          case digits: True
          show ?thesis
          proof (cases "CHR ''%'' \<in> set body")
            case False
            have ix: "Index ?B ''%25'' = - 1"
              using False by (rule Index_escape_absent)
            have tw: "takeWhile (\<lambda>c. c \<noteq> CHR ''%'') body = body"
              "dropWhile (\<lambda>c. c \<noteq> CHR ''%'') body = []"
              using False by (auto simp add: takeWhile_eq_all_conv dropWhile_eq_Nil_conv)
            have hr: "host_reparses h = list_all host_byte_reparses body"
              using True by (simp add: host_reparses_def lh bl tw)
            have "list_all host_byte_reparses h = list_all host_byte_reparses body"
              by (simp add: hb host_byte_reparses_def special_bytes)
            then have un: "unescape ?E encodeHost =
                (if host_reparses h then Some (h @ CHR '':'' # p) else None)"
              using tail hr by (simp only: unescape_escape_host) simp
            have v: "validOptionalPort (drop (Suc (length ?B)) ?E)"
              using digits by (simp only: dr1' vp)
            show ?thesis
              unfolding parseHost_bracket [OF br li]
              using digits by (simp only: v tk ix un) simp
          next
            case pct: True
            then obtain pre post where body: "body = pre @ CHR ''%'' # post"
              and np: "CHR ''%'' \<notin> set pre"
              by (meson split_list_first)
            let ?P = "escape pre encodeHost"
            let ?Z = "escape (CHR ''%'' # post) encodeHost"
            have B: "?B = ?P @ ?Z"
              by (simp add: body escape_append)
            have ix: "Index ?B ''%25'' = int (length ?P)"
              unfolding body using np by (rule Index_escape_first)
            have tw: "takeWhile (\<lambda>c. c \<noteq> CHR ''%'') body = pre"
              "dropWhile (\<lambda>c. c \<noteq> CHR ''%'') body = CHR ''%'' # post"
              using np by (auto simp add: body takeWhile_tail dropWhile_append3)
            have hr: "host_reparses h =
                (list_all host_byte_reparses pre \<and> list_all zone_byte_reparses post)"
              using True by (simp add: host_reparses_def lh bl tw zone_byte_reparses_def)
            have tkP: "take (length ?P) ?E = ?P"
              unfolding E' B by simp
            have drZ: "drop (length ?P) ?B = ?Z"
              unfolding B by simp
            have u1: "unescape ?P encodeHost =
                (if list_all host_byte_reparses pre then Some pre else None)"
              using unescape_escape_host [of pre "[]"] by simp
            have u2: "unescape ?Z encodeZone =
                (if list_all zone_byte_reparses post then Some (CHR ''%'' # post) else None)"
              using unescape_escape_zone [of "CHR ''%'' # post" "[]"]
              by (simp add: zone_byte_reparses_def)
            have res: "pre @ (CHR ''%'' # post) @ CHR '']'' # CHR '':'' # p = h @ CHR '':'' # p"
              by (simp add: hb body)
            have v: "validOptionalPort (drop (Suc (length ?B)) ?E)"
              using digits by (simp only: dr1' vp)
            have z: "nat (int (length ?P)) = length ?P"
              by simp
            show ?thesis
              unfolding parseHost_bracket [OF br li]
              using digits res by (simp only: v tk ix z tkP drZ dr u1 u2 tail3 hr) simp
          qed
        qed
      qed
    qed
  qed
qed


text \<open>The string of a guessed URL, and its parse.\<close>

lemma go_URL_String_guess:
  assumes "H \<noteq> []" and "S \<noteq> []"
  shows "go_URL_String (url_zero\<lparr>Host := H, Scheme := S, Path := ''/''\<rparr>) =
           S @ ''://'' @ escape H encodeHost @ ''/''"
  using assms
  by (simp add: go_URL_String_def url_zero_def EscapedPath_def slash_path Let_def)

lemma go_ParseRequestURI_escaped:
  assumes S: "S = ''http'' \<or> S = ''https''"
  shows "go_ParseRequestURI (S @ ''://'' @ escape H encodeHost @ ''/'') =
           (case parseHost (escape H encodeHost) of
              None \<Rightarrow> None
            | Some host \<Rightarrow> Some (url_zero\<lparr>Host := host, Scheme := S, Path := ''/''\<rparr>))"
proof -
  let ?X = "escape H encodeHost"
  let ?rest = "''//'' @ ?X @ ''/''"
  let ?raw = "S @ ''://'' @ ?X @ ''/''"
  have w: "CHR ''/'' \<notin> set ?X" "CHR ''?'' \<notin> set ?X" "CHR ''@'' \<notin> set ?X"
    "\<forall>x \<in> set ?X. \<not> (byte x < 32 \<or> byte x = 127)"
    using escape_host_bytes [of _ H] by blast+
  have ctl: "\<not> stringContainsCTLByte ?raw"
    using S w(4) by (auto simp add: stringContainsCTLByte_def byte_def list_ex_iff)
  have ne: "?raw \<noteq> []" "?raw \<noteq> ''*''"
    using S by auto
  have sch: "getScheme ?raw = Some (S, ?rest)"
    using S getScheme_http [of ?rest] getScheme_https [of ?rest] by auto
  have low: "ToLower S = S"
    using S ToLower_http by auto
  have force: "\<not> has_suffix ?rest ''?''"
    using has_suffix_slash [of "''//'' @ ?X"] by simp
  have q: "url_split ?rest CHR ''?'' True = (?rest, [])"
    using w by (intro url_split_absent) simp
  have pre: "has_prefix ?rest ''/''" "has_prefix ?rest ''//''" "drop 2 ?rest = ?X @ ''/''"
    by (simp_all add: has_prefix_def)
  have auth: "url_split (?X @ ''/'') CHR ''/'' False = (?X, ''/'')"
    using w url_split_first [of "CHR ''/''" ?X "[]"] by simp
  have at: "LastIndexByte ?X CHR ''@'' = - 1"
    using w by (intro LastIndexByte_absent) simp
  have pa: "parseAuthority ?X =
      (case parseHost ?X of None \<Rightarrow> None | Some host \<Rightarrow> Some (None, host))"
    using at by (simp add: parseAuthority_def Let_def split: option.splits)
  have sne: "S \<noteq> []" using S by auto
  show ?thesis
    unfolding go_ParseRequestURI_def
    using ctl ne sch low force q pre auth pa sne
    by (simp add: Let_def setPath_def slash_path url_zero_def split: option.splits)
qed

text \<open>
  C9, as the claim states it, says that the string of every guessed URL parses
  back to the same URL, for every host and port. With the port \<open>-1\<close> the string
  is \<^verbatim>\<open>https://kratos-1:-1/\<close>, whose port the parser refuses; with the host
  \<^verbatim>\<open>my host\<close> the string is \<^verbatim>\<open>https://my%20host:4433/\<close>, whose escape the parser
  refuses in a host.
\<close>

theorem guessBaseURL_reparse_counterexample:
  "go_URL_String (guessBaseURL env0 (source_of neg_port_doc) ViperKeyPublicHost ViperKeyPublicPort 4433)
     = ''https://kratos-1:-1/'' \<and>
   go_ParseRequestURI ''https://kratos-1:-1/'' = None \<and>
   go_URL_String (guessBaseURL env0 (source_of space_host_doc) ViperKeyPublicHost ViperKeyPublicPort 4433)
     = ''https://my%20host:4433/'' \<and>
   go_ParseRequestURI ''https://my%20host:4433/'' = None"
  by code_simp

text \<open>
  C9, amended. For every host, port and insecure-development-mode setting, parsing
  the string of the guessed URL as a request URI gives the guessed URL back
  exactly when the port is not negative and the host of the guess (the configured
  one, or the host name or \<^verbatim>\<open>127.0.0.1\<close> that replaces an empty one or \<^verbatim>\<open>0.0.0.0\<close>)
  is one that \<open>host_reparses\<close> describes: outside brackets every byte is one that
  \<^verbatim>\<open>String\<close> leaves unescaped in a host, a percent sign or a byte from \<^verbatim>\<open>0x80\<close> on;
  a host that starts with \<^verbatim>\<open>[\<close> ends with \<^verbatim>\<open>]\<close>, and from its first percent sign
  to the last bracket the bytes that need an escape are percent signs and spaces
  only. In every other case the parse fails. The parser is that of Go 1.15.
\<close>

theorem guessBaseURL_reparses:
  "go_ParseRequestURI (go_URL_String (guessBaseURL e s keyHost keyPort defaultPort)) =
     (if 0 \<le> p_IntF e s keyPort defaultPort \<and>
         host_reparses
           (if p_String e s keyHost = ''0.0.0.0'' \<or> p_String e s keyHost = []
            then (case Hostname e of None \<Rightarrow> ''127.0.0.1'' | Some h \<Rightarrow> h)
            else p_String e s keyHost)
      then Some (guessBaseURL e s keyHost keyPort defaultPort)
      else None)"
proof -
  let ?h = "if p_String e s keyHost = ''0.0.0.0'' \<or> p_String e s keyHost = []
       then (case Hostname e of None \<Rightarrow> ''127.0.0.1'' | Some h \<Rightarrow> h)
       else p_String e s keyHost"
  let ?n = "p_IntF e s keyPort defaultPort"
  let ?S = "if IsInsecureDevMode e s then ''http'' else ''https''"
  let ?H = "?h @ CHR '':'' # itoa ?n"
  have g: "guessBaseURL e s keyHost keyPort defaultPort =
      url_zero\<lparr>Host := ?H, Scheme := ?S, Path := ''/''\<rparr>"
    by (simp add: guessBaseURL_def Let_def url_zero_def)
  have plain: "list_all (\<lambda>c. \<not> shouldEscape c encodeHost) (itoa ?n)"
    using itoa_bytes [of ?n] host_bytes special_bytes(5) by (auto simp add: list_all_iff)
  have esc: "escape ?H encodeHost = escape ?h encodeHost @ CHR '':'' # itoa ?n"
    using escape_plain [OF plain]
    by (simp only: escape_append escape_Cons) (simp add: escape_byte_def special_bytes)
  have str: "go_URL_String (url_zero\<lparr>Host := ?H, Scheme := ?S, Path := ''/''\<rparr>) =
      ?S @ ''://'' @ escape ?H encodeHost @ ''/''"
    by (rule go_URL_String_guess) simp_all
  have S: "?S = ''http'' \<or> ?S = ''https''"
    by simp
  have ph: "parseHost (escape ?H encodeHost) =
      (if 0 \<le> ?n \<and> host_reparses ?h then Some ?H else None)"
    unfolding esc using parseHost_escaped [OF itoa_bytes, of ?h ?n] by (simp only: itoa_digits)
  show ?thesis
    unfolding g str go_ParseRequestURI_escaped [OF S] ph by simp
qed

theorem guessBaseURL_reparses_witness:
  "go_ParseRequestURI
     (go_URL_String (guessBaseURL env0 (source_of dev_doc) ViperKeyPublicHost ViperKeyPublicPort 4433)) =
     Some (url_zero\<lparr>Host := ''kratos-1:4455'', Scheme := ''http'', Path := ''/''\<rparr>) \<and>
   go_ParseRequestURI
     (go_URL_String (guessBaseURL env0 (source_of (host_doc ''[::1]''))
        ViperKeyPublicHost ViperKeyPublicPort 4433)) =
     Some (url_zero\<lparr>Host := ''[::1]:4433'', Scheme := ''https'', Path := ''/''\<rparr>) \<and>
   go_ParseRequestURI
     (go_URL_String (guessBaseURL env0 (source_of (host_doc ''[fe80::1%eth0]''))
        ViperKeyPublicHost ViperKeyPublicPort 4433)) =
     Some (url_zero\<lparr>Host := ''[fe80::1%eth0]:4433'', Scheme := ''https'', Path := ''/''\<rparr>) \<and>
   go_ParseRequestURI
     (go_URL_String (guessBaseURL env0 (source_of (host_doc ''a%b''))
        ViperKeyPublicHost ViperKeyPublicPort 4433)) =
     Some (url_zero\<lparr>Host := ''a%b:4433'', Scheme := ''https'', Path := ''/''\<rparr>) \<and>
   go_ParseRequestURI
     (go_URL_String (guessBaseURL env0 (source_of (host_doc utf8_host))
        ViperKeyPublicHost ViperKeyPublicPort 4433)) =
     Some (url_zero\<lparr>Host := utf8_host @ '':4433'', Scheme := ''https'', Path := ''/''\<rparr>) \<and>
   go_ParseRequestURI
     (go_URL_String (guessBaseURL env0 (source_of (host_doc ''my host''))
        ViperKeyPublicHost ViperKeyPublicPort 4433)) = None \<and>
   go_ParseRequestURI
     (go_URL_String (guessBaseURL env0 (source_of (host_doc ''[::1''))
        ViperKeyPublicHost ViperKeyPublicPort 4433)) = None \<and>
   go_ParseRequestURI
     (go_URL_String (guessBaseURL env0 (source_of neg_port_doc)
        ViperKeyPublicHost ViperKeyPublicPort 4433)) = None"
proof -
  have host: "p_String env0 (source_of (host_doc h)) ViperKeyPublicHost = h"
    and port: "p_IntF env0 (source_of (host_doc h)) ViperKeyPublicPort 4433 = 4433"
    and dev: "\<not> IsInsecureDevMode env0 (source_of (host_doc h))" for h
    by (cases h; simp add: IsInsecureDevMode_def source_eval host_doc_def)+
  have guess: "guessBaseURL env0 (source_of (host_doc h)) ViperKeyPublicHost ViperKeyPublicPort 4433 =
      url_zero\<lparr>Host := h @ '':4433'', Scheme := ''https'', Path := ''/''\<rparr>"
    if "h \<noteq> ''0.0.0.0''" and "h \<noteq> []" for h
    using that by (simp add: guessBaseURL_def host port dev itoa_def digit_chars.simps)
  have r: "host_reparses ''kratos-1''" "host_reparses ''[::1]''"
    "host_reparses ''[fe80::1%eth0]''" "host_reparses ''a%b''" "host_reparses utf8_host"
    "\<not> host_reparses ''my host''" "\<not> host_reparses ''[::1''"
    by code_simp+
  have dev_guess:
    "guessBaseURL env0 (source_of dev_doc) ViperKeyPublicHost ViperKeyPublicPort 4433 =
      url_zero\<lparr>Host := ''kratos-1:4455'', Scheme := ''http'', Path := ''/''\<rparr>"
    by (simp add: guessBaseURL_def IsInsecureDevMode_def source_eval dev_doc_def env0_def
        itoa_4455 Let_def)
  have dev_host: "p_String env0 (source_of dev_doc) ViperKeyPublicHost = []"
    and dev_port: "p_IntF env0 (source_of dev_doc) ViperKeyPublicPort 4433 = 4455"
    and neg_port: "p_IntF env0 (source_of neg_port_doc) ViperKeyPublicPort 4433 = - 1"
    and name: "Hostname env0 = Some ''kratos-1''"
    by (simp_all add: source_eval dev_doc_def neg_port_doc_def env0_def)
  have u: "utf8_host \<noteq> ''0.0.0.0''" "utf8_host \<noteq> []"
    by (simp_all add: utf8_host_def)
  note t = guessBaseURL_reparses [where e = env0 and keyHost = ViperKeyPublicHost
      and keyPort = ViperKeyPublicPort and defaultPort = 4433]
  have 1: "go_ParseRequestURI
     (go_URL_String (guessBaseURL env0 (source_of dev_doc) ViperKeyPublicHost ViperKeyPublicPort 4433)) =
     Some (url_zero\<lparr>Host := ''kratos-1:4455'', Scheme := ''http'', Path := ''/''\<rparr>)"
    using t [where s = "source_of dev_doc"] by (simp add: dev_host dev_port name r dev_guess)
  have 2: "go_ParseRequestURI
     (go_URL_String (guessBaseURL env0 (source_of (host_doc h))
        ViperKeyPublicHost ViperKeyPublicPort 4433)) =
     (if host_reparses h
      then Some (url_zero\<lparr>Host := h @ '':4433'', Scheme := ''https'', Path := ''/''\<rparr>)
      else None)"
    if "h \<noteq> ''0.0.0.0''" and "h \<noteq> []" for h
    using t [where s = "source_of (host_doc h)"] that by (simp add: host port guess)
  have 3: "go_ParseRequestURI
     (go_URL_String (guessBaseURL env0 (source_of neg_port_doc)
        ViperKeyPublicHost ViperKeyPublicPort 4433)) = None"
    using t [where s = "source_of neg_port_doc"] by (simp add: neg_port)
  show ?thesis
    using 1 2 [of "''[::1]''"] 2 [of "''[fe80::1%eth0]''"] 2 [of "''a%b''"] 2 [OF u]
      2 [of "''my host''"] 2 [of "''[::1''"] 3
    by (simp add: r)
qed

end
